theory Spec2Isabelle
  imports Main "HOL-Library.Sublist"
begin

section \<open>The socket library as the program sees it\<close>

text \<open>
  \<^verbatim>\<open>tcp_socket.py\<close> holds two classes, \<^verbatim>\<open>TcpServer\<close> (the Listener) and
  \<^verbatim>\<open>TcpClient\<close> (the Connector). Both only call Python's \<^verbatim>\<open>socket\<close> module, so the
  model threads a \<open>world\<close> through every call: the operating system's side of the
  conversation. Every object the library hands out (a socket, a text stream, an
  adapter) is a \<open>handle\<close>, a number that is fresh when the object is created.
  An endpoint is Python's \<^verbatim>\<open>(ip, port)\<close> tuple.

  The failures in the model are those the error handling of the two classes meets: an
  address the library or the resolver rejects, a bind the operating system refuses, an
  \<^verbatim>\<open>accept\<close> that fails or never returns, a \<^verbatim>\<open>connect\<close> that is refused or does not get
  through, and a release that fails. Creating a socket, setting an option, \<^verbatim>\<open>listen\<close>,
  \<^verbatim>\<open>makefile\<close> and \<^verbatim>\<open>print\<close> succeed.
\<close>

type_synonym handle = nat
type_synonym endpoint = "string \<times> int"

text \<open>
  Python reports a failed socket call as \<^verbatim>\<open>OSError\<close> carrying an errno; reading an
  attribute that was never assigned raises \<^verbatim>\<open>AttributeError\<close>. An address is checked
  before the operating system sees it: a host name that does not resolve raises
  \<^verbatim>\<open>socket.gaierror\<close>, a port outside \<^verbatim>\<open>0..65535\<close> raises \<^verbatim>\<open>OverflowError\<close>.
\<close>

datatype errno =
    EADDRINUSE | EADDRNOTAVAIL | EACCES | ECONNREFUSED | ECONNRESET | ECONNABORTED | EPIPE
  | ETIMEDOUT | EHOSTUNREACH | ENETUNREACH | EIO

datatype error = OSError errno | AttributeError string | OverflowError | gaierror

text \<open>
  A call returns a value, raises, or never comes back (\<^verbatim>\<open>accept\<close> with no peer on its
  way blocks forever; the source sets no timeout).
\<close>

datatype 'a outcome = Returns 'a | Raises error | Blocks

datatype sockopt = SO_REUSEADDR

text \<open>The library calls the two classes make, in the order they are made.\<close>

datatype call =
    Socket handle
  | SetSockOpt handle sockopt int
  | Bind handle endpoint
  | Listen handle nat
  | Accept handle
  | Connect handle endpoint
  | Makefile handle string string handle
  | CloseStream handle
  | CloseSocket handle
  | Print string

text \<open>What the next \<^verbatim>\<open>accept\<close> will meet: a peer connecting from an address, or a failure.\<close>

datatype accept_event = PeerConnects endpoint | AcceptFails errno

record world =
  fresh :: handle
  unresolvable :: "string list"
  bound_elsewhere :: "endpoint list"
  bind_faults :: "(endpoint \<times> errno) list"
  listeners :: "endpoint list"
  connect_faults :: "(endpoint \<times> errno) list"
  incoming :: "accept_event list"
  close_faults :: "(handle \<times> errno) list"
  open_res :: "handle list"
  trace :: "call list"

text \<open>
  \<open>fresh\<close> is the next unused handle; \<open>unresolvable\<close> the host names the resolver
  does not know; \<open>bound_elsewhere\<close> the endpoints another listener is bound to;
  \<open>bind_faults\<close> the endpoints the operating system refuses to bind for another reason,
  with the errno (\<^verbatim>\<open>EACCES\<close> for a port that needs a privilege, \<^verbatim>\<open>EADDRNOTAVAIL\<close> for an
  address that is not local); \<open>listeners\<close> the endpoints at which someone accepts
  connections; \<open>connect_faults\<close> the endpoints a connection does not get through to,
  with the errno (\<^verbatim>\<open>ETIMEDOUT\<close>, \<^verbatim>\<open>EHOSTUNREACH\<close>, \<^verbatim>\<open>ENETUNREACH\<close>); \<open>incoming\<close> the events successive \<^verbatim>\<open>accept\<close> calls meet (none left: it blocks);
  \<open>close_faults\<close> the resources whose release fails, with the errno; \<open>open_res\<close> the
  sockets and streams that are open; \<open>trace\<close> the calls made so far, oldest first.
\<close>

definition emit :: "call \<Rightarrow> world \<Rightarrow> world" where
  "emit c w = w\<lparr>trace := trace w @ [c]\<rparr>"

definition new_calls :: "world \<Rightarrow> world \<Rightarrow> call list" where
  "new_calls w w' = drop (length (trace w)) (trace w')"

definition alloc :: "world \<Rightarrow> world" where
  "alloc w = w\<lparr>fresh := Suc (fresh w), open_res := fresh w # open_res w\<rparr>"

text \<open>\<^verbatim>\<open>socket.socket(socket.AF_INET, socket.SOCK_STREAM)\<close>\<close>

definition socket_socket :: "world \<Rightarrow> handle \<times> world" where
  "socket_socket w = (fresh w, alloc (emit (Socket (fresh w)) w))"

text \<open>\<^verbatim>\<open>sock.setsockopt(socket.SOL_SOCKET, opt, v)\<close>\<close>

definition setsockopt :: "handle \<Rightarrow> sockopt \<Rightarrow> int \<Rightarrow> world \<Rightarrow> world" where
  "setsockopt s opt v w = emit (SetSockOpt s opt v) w"

text \<open>
  The address argument of \<^verbatim>\<open>bind\<close> and \<^verbatim>\<open>connect\<close>: the host is resolved, then the
  port is checked.
\<close>

definition address_error :: "endpoint \<Rightarrow> world \<Rightarrow> error option" where
  "address_error ep w =
     (if fst ep \<in> set (unresolvable w) then Some gaierror
      else if snd ep < 0 \<or> 65535 < snd ep then Some OverflowError
      else None)"

text \<open>
  \<^verbatim>\<open>sock.bind(ep)\<close>: why it raises, if it does. An endpoint another listener holds is a
  resolved address with a port in range, so for it the answer is the operating system's,
  address in use; otherwise the address is checked, and then the operating system may
  refuse for a reason of its own.
\<close>

definition bind_refusal :: "endpoint \<Rightarrow> world \<Rightarrow> error option" where
  "bind_refusal ep w =
     (if ep \<in> set (bound_elsewhere w) then Some (OSError EADDRINUSE)
      else (case address_error ep w of
              Some e \<Rightarrow> Some e
            | None \<Rightarrow>
               (case map_of (bind_faults w) ep of
                  Some n \<Rightarrow> Some (OSError n)
                | None \<Rightarrow> None)))"

definition bind_sock :: "handle \<Rightarrow> endpoint \<Rightarrow> world \<Rightarrow> unit outcome \<times> world" where
  "bind_sock s ep w =
     ((case bind_refusal ep w of None \<Rightarrow> Returns () | Some e \<Rightarrow> Raises e),
      emit (Bind s ep) w)"

text \<open>\<^verbatim>\<open>sock.listen(backlog)\<close>\<close>

definition listen :: "handle \<Rightarrow> nat \<Rightarrow> world \<Rightarrow> world" where
  "listen s backlog w = emit (Listen s backlog) w"

text \<open>\<^verbatim>\<open>print(msg)\<close>\<close>

definition print :: "string \<Rightarrow> world \<Rightarrow> world" where
  "print msg w = emit (Print msg) w"

text \<open>
  \<^verbatim>\<open>sock.accept()\<close>: takes the next incoming event. A connecting peer yields a new
  socket and the peer's address.
\<close>

definition accept :: "handle \<Rightarrow> world \<Rightarrow> (handle \<times> endpoint) outcome \<times> world" where
  "accept s w =
     (case incoming w of
        [] \<Rightarrow> (Blocks, emit (Accept s) w)
      | PeerConnects a # evs \<Rightarrow>
          (Returns (fresh w, a), alloc (emit (Accept s) w)\<lparr>incoming := evs\<rparr>)
      | AcceptFails e # evs \<Rightarrow>
          (Raises (OSError e), (emit (Accept s) w)\<lparr>incoming := evs\<rparr>))"

text \<open>
  \<^verbatim>\<open>sock.connect(ep)\<close>: why it raises, if it does. The address is checked; then the
  connection may not get through; where it does and nobody listens, it is refused.
\<close>

definition connect_refusal :: "endpoint \<Rightarrow> world \<Rightarrow> error option" where
  "connect_refusal ep w =
     (case address_error ep w of
        Some e \<Rightarrow> Some e
      | None \<Rightarrow>
         (case map_of (connect_faults w) ep of
            Some n \<Rightarrow> Some (OSError n)
          | None \<Rightarrow> if ep \<in> set (listeners w) then None else Some (OSError ECONNREFUSED)))"

definition connect :: "handle \<Rightarrow> endpoint \<Rightarrow> world \<Rightarrow> unit outcome \<times> world" where
  "connect s ep w =
     ((case connect_refusal ep w of None \<Rightarrow> Returns () | Some e \<Rightarrow> Raises e),
      emit (Connect s ep) w)"

text \<open>\<^verbatim>\<open>sock.makefile(mode, encoding=enc)\<close>: a new text stream object over the socket.\<close>

definition makefile :: "handle \<Rightarrow> string \<Rightarrow> string \<Rightarrow> world \<Rightarrow> handle \<times> world" where
  "makefile s mode enc w = (fresh w, alloc (emit (Makefile s mode enc (fresh w)) w))"

text \<open>
  Releasing a resource. Python's \<^verbatim>\<open>close()\<close> on a file object or a socket that is
  already closed does nothing and cannot fail. On an open one the resource is given up,
  and the call raises when the release itself fails (a flush of pending text to a dead
  peer, a reset connection): \<^verbatim>\<open>TextIOWrapper.close\<close> closes its buffer in a \<^verbatim>\<open>finally\<close> clause and
  \<^verbatim>\<open>socket.close\<close> drops the descriptor before it reports the error.
\<close>

definition release_fault :: "handle \<Rightarrow> world \<Rightarrow> errno option" where
  "release_fault h w = (if h \<in> set (open_res w) then map_of (close_faults w) h else None)"

definition release :: "call \<Rightarrow> handle \<Rightarrow> world \<Rightarrow> unit outcome \<times> world" where
  "release c h w =
     ((case release_fault h w of None \<Rightarrow> Returns () | Some e \<Rightarrow> Raises (OSError e)),
      (emit c w)\<lparr>open_res := removeAll h (open_res w)\<rparr>)"

definition close_stream :: "handle \<Rightarrow> world \<Rightarrow> unit outcome \<times> world" where
  "close_stream f w = release (CloseStream f) f w"

definition close_socket :: "handle \<Rightarrow> world \<Rightarrow> unit outcome \<times> world" where
  "close_socket s w = release (CloseSocket s) s w"

section \<open>The stream adapter\<close>

text \<open>
  Modelled from the spec: the class \<^verbatim>\<open>DataStream\<close> of \<^verbatim>\<open>data_stream.py\<close>, which
  \<^verbatim>\<open>tcp_socket.py\<close> imports and which is not among the sources. The spec calls it the
  Stream Adapter, an external collaborator that, given the stream, returns an object
  supporting text read and write over it. An adapter is an object of its own (\<open>ident\<close>)
  that keeps the stream it was given (\<open>wrapped\<close>); creating one touches no socket.
\<close>

record data_stream =
  ident :: handle
  wrapped :: handle

definition DataStream :: "handle \<Rightarrow> world \<Rightarrow> data_stream \<times> world" where
  "DataStream f w = (\<lparr>ident = fresh w, wrapped = f\<rparr>, w\<lparr>fresh := Suc (fresh w)\<rparr>)"

section \<open>TcpServer, the Listener\<close>

text \<open>
  A Python object has an attribute only once it was assigned, so each field is an
  option: \<open>None\<close> is "no such attribute". A method takes the object and the world and
  returns its outcome, the object and the world.
\<close>

record TcpServer =
  serversock :: "handle option"
  clientsock :: "handle option"
  client_address :: "endpoint option"
  stream :: "handle option"

definition TcpServer_init ::
  "string \<Rightarrow> int \<Rightarrow> world \<Rightarrow> unit outcome \<times> TcpServer \<times> world" where
  "TcpServer_init ip port w0 =
     (let self0 = \<lparr>serversock = None, clientsock = None, client_address = None, stream = None\<rparr>;
          (s, w1) = socket_socket w0;
          self1 = self0\<lparr>serversock := Some s\<rparr>;
          w2 = setsockopt s SO_REUSEADDR 1 w1
      in case bind_sock s (ip, port) w2 of
           (Raises e, w3) \<Rightarrow> (Raises e, self1, w3)
         | (Blocks, w3) \<Rightarrow> (Blocks, self1, w3)
         | (Returns _, w3) \<Rightarrow>
             (let w4 = listen s 1 w3;
                  w5 = print ''Waiting for connections...'' w4
              in case accept s w5 of
                   (Raises e, w6) \<Rightarrow> (Raises e, self1, w6)
                 | (Blocks, w6) \<Rightarrow> (Blocks, self1, w6)
                 | (Returns (c, addr), w6) \<Rightarrow>
                     (let self2 = self1\<lparr>clientsock := Some c, client_address := Some addr\<rparr>;
                          (f, w7) = makefile c ''rw'' ''utf-8'' w6;
                          self3 = self2\<lparr>stream := Some f\<rparr>;
                          w8 = print ''Connected!'' w7
                      in (Returns (), self3, w8))))"

definition TcpServer_get_stream ::
  "TcpServer \<Rightarrow> world \<Rightarrow> data_stream outcome \<times> TcpServer \<times> world" where
  "TcpServer_get_stream self w =
     (case stream self of
        None \<Rightarrow> (Raises (AttributeError ''stream''), self, w)
      | Some f \<Rightarrow> (let (d, w1) = DataStream f w in (Returns d, self, w1)))"

definition TcpServer_close :: "TcpServer \<Rightarrow> world \<Rightarrow> unit outcome \<times> TcpServer \<times> world" where
  "TcpServer_close self w =
     (case stream self of
        None \<Rightarrow> (Raises (AttributeError ''stream''), self, w)
      | Some f \<Rightarrow>
         (case close_stream f w of
            (Raises e, w1) \<Rightarrow> (Raises e, self, w1)
          | (Blocks, w1) \<Rightarrow> (Blocks, self, w1)
          | (Returns _, w1) \<Rightarrow>
             (case clientsock self of
                None \<Rightarrow> (Raises (AttributeError ''clientsock''), self, w1)
              | Some c \<Rightarrow>
                 (case close_socket c w1 of
                    (Raises e, w2) \<Rightarrow> (Raises e, self, w2)
                  | (Blocks, w2) \<Rightarrow> (Blocks, self, w2)
                  | (Returns _, w2) \<Rightarrow>
                     (case serversock self of
                        None \<Rightarrow> (Raises (AttributeError ''serversock''), self, w2)
                      | Some s \<Rightarrow>
                         (case close_socket s w2 of
                            (r, w3) \<Rightarrow> (r, self, w3)))))))"

section \<open>TcpClient, the Connector\<close>

text \<open>
  The class names its stream attribute \<^verbatim>\<open>stream\<close> as \<^verbatim>\<open>TcpServer\<close> does; the field is
  \<open>cstream\<close> here, to keep the fields of the two records apart.
\<close>

record TcpClient =
  client :: "handle option"
  cstream :: "handle option"

definition TcpClient_init ::
  "string \<Rightarrow> int \<Rightarrow> world \<Rightarrow> unit outcome \<times> TcpClient \<times> world" where
  "TcpClient_init ip port w0 =
     (let self0 = \<lparr>client = None, cstream = None\<rparr>;
          (s, w1) = socket_socket w0;
          self1 = self0\<lparr>client := Some s\<rparr>
      in case connect s (ip, port) w1 of
           (Raises e, w2) \<Rightarrow> (Raises e, self1, w2)
         | (Blocks, w2) \<Rightarrow> (Blocks, self1, w2)
         | (Returns _, w2) \<Rightarrow>
             (let (f, w3) = makefile s ''rw'' ''utf-8'' w2;
                  self2 = self1\<lparr>cstream := Some f\<rparr>;
                  w4 = print ''Connected!'' w3
              in (Returns (), self2, w4)))"

definition TcpClient_get_stream ::
  "TcpClient \<Rightarrow> world \<Rightarrow> data_stream outcome \<times> TcpClient \<times> world" where
  "TcpClient_get_stream self w =
     (case cstream self of
        None \<Rightarrow> (Raises (AttributeError ''stream''), self, w)
      | Some f \<Rightarrow> (let (d, w1) = DataStream f w in (Returns d, self, w1)))"

definition TcpClient_close :: "TcpClient \<Rightarrow> world \<Rightarrow> unit outcome \<times> TcpClient \<times> world" where
  "TcpClient_close self w =
     (case cstream self of
        None \<Rightarrow> (Raises (AttributeError ''stream''), self, w)
      | Some f \<Rightarrow>
         (case close_stream f w of
            (Raises e, w1) \<Rightarrow> (Raises e, self, w1)
          | (Blocks, w1) \<Rightarrow> (Blocks, self, w1)
          | (Returns _, w1) \<Rightarrow>
             (case client self of
                None \<Rightarrow> (Raises (AttributeError ''client''), self, w1)
              | Some s \<Rightarrow>
                 (case close_socket s w1 of
                    (r, w2) \<Rightarrow> (r, self, w2)))))"

section \<open>Vocabulary of the properties\<close>

text \<open>
  The calls a successful \<^verbatim>\<open>TcpServer.__init__\<close> makes, in the order of its statements:
  \<open>s\<close> is the listening socket, \<open>c\<close> the accepted one, \<open>f\<close> the stream. The first six
  are the calls up to and including \<^verbatim>\<open>accept\<close>.
\<close>

definition listener_calls :: "endpoint \<Rightarrow> handle \<Rightarrow> handle \<Rightarrow> handle \<Rightarrow> call list" where
  "listener_calls ep s c f =
     [Socket s, SetSockOpt s SO_REUSEADDR 1, Bind s ep, Listen s 1,
      Print ''Waiting for connections...'', Accept s, Makefile c ''rw'' ''utf-8'' f,
      Print ''Connected!'']"

text \<open>A call that establishes a connection.\<close>

fun establishes :: "call \<Rightarrow> bool" where
  "establishes (Accept s) = True"
| "establishes (Connect s ep) = True"
| "establishes c = False"

fun is_makefile :: "call \<Rightarrow> bool" where
  "is_makefile (Makefile s mode enc f) = True"
| "is_makefile c = False"

text \<open>
  The mode string of \<^verbatim>\<open>makefile\<close>: \<^verbatim>\<open>r\<close> asks for reading, \<^verbatim>\<open>w\<close> for writing, and
  the stream is a text stream unless the mode has \<^verbatim>\<open>b\<close>.
\<close>

definition text_read_write :: "string \<Rightarrow> bool" where
  "text_read_write mode =
     (CHR ''r'' \<in> set mode \<and> CHR ''w'' \<in> set mode \<and> CHR ''b'' \<notin> set mode)"

text \<open>
  The spec's error names are families of Python's exceptions. Its \<open>BindError\<close> is the
  \<^verbatim>\<open>OSError\<close> of a bind to an address in use or without the privilege; Python's own
  \<^verbatim>\<open>ConnectionError\<close> is the \<^verbatim>\<open>OSError\<close> of a refused, reset or aborted connection or a
  broken pipe.
\<close>

definition BindError :: "error \<Rightarrow> bool" where
  "BindError e = (e = OSError EADDRINUSE \<or> e = OSError EACCES)"

definition ConnectionError :: "error \<Rightarrow> bool" where
  "ConnectionError e =
     (e = OSError ECONNREFUSED \<or> e = OSError ECONNRESET \<or> e = OSError ECONNABORTED
      \<or> e = OSError EPIPE)"

text \<open>Calling \<^verbatim>\<open>get_stream()\<close> again and again, keeping every outcome.\<close>

fun TcpServer_get_streams ::
  "nat \<Rightarrow> TcpServer \<Rightarrow> world \<Rightarrow> data_stream outcome list \<times> TcpServer \<times> world" where
  "TcpServer_get_streams 0 self w = ([], self, w)"
| "TcpServer_get_streams (Suc n) self w =
     (case TcpServer_get_stream self w of
        (r, self1, w1) \<Rightarrow>
          (case TcpServer_get_streams n self1 w1 of
             (rs, self2, w2) \<Rightarrow> (r # rs, self2, w2)))"

fun TcpClient_get_streams ::
  "nat \<Rightarrow> TcpClient \<Rightarrow> world \<Rightarrow> data_stream outcome list \<times> TcpClient \<times> world" where
  "TcpClient_get_streams 0 self w = ([], self, w)"
| "TcpClient_get_streams (Suc n) self w =
     (case TcpClient_get_stream self w of
        (r, self1, w1) \<Rightarrow>
          (case TcpClient_get_streams n self1 w1 of
             (rs, self2, w2) \<Rightarrow> (r # rs, self2, w2)))"

text \<open>
  A caller using a component: any sequence of the two exposed methods. An exception a
  method raises is caught by the caller, who goes on with the next call.
\<close>

datatype invocation = GetStream | Close

fun TcpServer_use :: "invocation list \<Rightarrow> TcpServer \<Rightarrow> world \<Rightarrow> TcpServer \<times> world" where
  "TcpServer_use [] self w = (self, w)"
| "TcpServer_use (GetStream # ms) self w =
     (case TcpServer_get_stream self w of (r, self1, w1) \<Rightarrow> TcpServer_use ms self1 w1)"
| "TcpServer_use (Close # ms) self w =
     (case TcpServer_close self w of (r, self1, w1) \<Rightarrow> TcpServer_use ms self1 w1)"

fun TcpClient_use :: "invocation list \<Rightarrow> TcpClient \<Rightarrow> world \<Rightarrow> TcpClient \<times> world" where
  "TcpClient_use [] self w = (self, w)"
| "TcpClient_use (GetStream # ms) self w =
     (case TcpClient_get_stream self w of (r, self1, w1) \<Rightarrow> TcpClient_use ms self1 w1)"
| "TcpClient_use (Close # ms) self w =
     (case TcpClient_close self w of (r, self1, w1) \<Rightarrow> TcpClient_use ms self1 w1)"

subsection \<open>Concrete worlds\<close>

text \<open>
  A quiet machine: every host name resolves, nothing is bound or refused, someone
  listens at \<^verbatim>\<open>127.0.0.1:3000\<close>, one peer is about to connect, and every release
  succeeds.
\<close>

definition quiet_world :: world where
  "quiet_world =
     \<lparr>fresh = 0, unresolvable = [], bound_elsewhere = [], bind_faults = [],
      listeners = [(''127.0.0.1'', 3000)], connect_faults = [],
      incoming = [PeerConnects (''127.0.0.1'', 50412)], close_faults = [],
      open_res = [], trace = []\<rparr>"

text \<open>The same machine with the port taken by another listener, and with nobody listening.\<close>

definition busy_world :: world where
  "busy_world = quiet_world\<lparr>bound_elsewhere := [(''127.0.0.1'', 3000)]\<rparr>"

definition deaf_world :: world where
  "deaf_world = quiet_world\<lparr>listeners := []\<rparr>"

text \<open>And with no peer ever connecting.\<close>

definition lonely_world :: world where
  "lonely_world = quiet_world\<lparr>incoming := []\<rparr>"

text \<open>
  The quiet machine on which the Listener's stream, which will be object 2, cannot be
  flushed when it is closed: the peer has gone away with text still buffered.
\<close>

definition broken_pipe_world :: world where
  "broken_pipe_world = quiet_world\<lparr>close_faults := [(2, EPIPE)]\<rparr>"

text \<open>And where, on top of that, closing the accepted socket, object 1, fails as well.\<close>

definition flaky_world :: world where
  "flaky_world = quiet_world\<lparr>close_faults := [(2, EPIPE), (1, EIO)]\<rparr>"

text \<open>
  A connected Listener and a connected Connector as their constructors leave them on
  the quiet machine, and the world around each just after construction, with the
  releases that will fail as a parameter.
\<close>

definition listener_ex :: TcpServer where
  "listener_ex =
     \<lparr>serversock = Some 0, clientsock = Some 1,
      client_address = Some (''127.0.0.1'', 50412), stream = Some 2\<rparr>"

definition listener_world :: "(handle \<times> errno) list \<Rightarrow> world" where
  "listener_world faults =
     \<lparr>fresh = 3, unresolvable = [], bound_elsewhere = [], bind_faults = [],
      listeners = [(''127.0.0.1'', 3000)], connect_faults = [],
      incoming = [], close_faults = faults, open_res = [2, 1, 0], trace = []\<rparr>"

definition connector_ex :: TcpClient where
  "connector_ex = \<lparr>client = Some 0, cstream = Some 1\<rparr>"

definition connector_world :: "(handle \<times> errno) list \<Rightarrow> world" where
  "connector_world faults =
     \<lparr>fresh = 2, unresolvable = [], bound_elsewhere = [], bind_faults = [],
      listeners = [(''127.0.0.1'', 3000)], connect_faults = [],
      incoming = [PeerConnects (''127.0.0.1'', 50412)], close_faults = faults,
      open_res = [1, 0], trace = []\<rparr>"

section \<open>Facts about the library calls\<close>

lemmas lib_defs = emit_def alloc_def socket_socket_def setsockopt_def address_error_def
  bind_refusal_def bind_sock_def listen_def print_def accept_def connect_refusal_def connect_def
  makefile_def release_def close_stream_def close_socket_def DataStream_def

text \<open>Whether a bind or a connect is refused does not depend on what the program did.\<close>

lemma bind_refusal_frame:
  "bind_refusal ep (w\<lparr>fresh := a\<rparr>) = bind_refusal ep w"
  "bind_refusal ep (w\<lparr>open_res := b\<rparr>) = bind_refusal ep w"
  "bind_refusal ep (w\<lparr>trace := c\<rparr>) = bind_refusal ep w"
  by (simp_all add: bind_refusal_def address_error_def)

lemma connect_refusal_frame:
  "connect_refusal ep (w\<lparr>fresh := a\<rparr>) = connect_refusal ep w"
  "connect_refusal ep (w\<lparr>open_res := b\<rparr>) = connect_refusal ep w"
  "connect_refusal ep (w\<lparr>trace := c\<rparr>) = connect_refusal ep w"
  by (simp_all add: connect_refusal_def address_error_def)

lemmas call_defs = emit_def alloc_def socket_socket_def setsockopt_def bind_sock_def listen_def
  print_def accept_def connect_def makefile_def bind_refusal_frame connect_refusal_frame

lemma release_fault_after:
  "release_fault h ((emit c w)\<lparr>open_res := removeAll k (open_res w)\<rparr>) =
     (if h = k then None else release_fault h w)"
  by (simp add: release_fault_def emit_def)

lemma release_eq:
  "release c h w =
     ((case release_fault h w of None \<Rightarrow> Returns () | Some e \<Rightarrow> Raises (OSError e)),
      w\<lparr>trace := trace w @ [c], open_res := removeAll h (open_res w)\<rparr>)"
  by (simp add: release_def emit_def)

lemma snd_close_stream:
  "snd (close_stream f w) =
     w\<lparr>trace := trace w @ [CloseStream f], open_res := removeAll f (open_res w)\<rparr>"
  by (simp add: close_stream_def release_eq)

lemma snd_close_socket:
  "snd (close_socket s w) =
     w\<lparr>trace := trace w @ [CloseSocket s], open_res := removeAll s (open_res w)\<rparr>"
  by (simp add: close_socket_def release_eq)

lemma fst_close_socket:
  "fst (close_socket s w) =
     (case release_fault s w of None \<Rightarrow> Returns () | Some e \<Rightarrow> Raises (OSError e))"
  by (simp add: close_socket_def release_eq)

text \<open>
  \<^verbatim>\<open>close()\<close> on a component whose attributes are all set: the three statements run
  one after the other, and the first that raises ends the method.
\<close>

lemma TcpServer_close_connected:
  assumes "stream l = Some f" "clientsock l = Some c" "serversock l = Some s"
  shows "TcpServer_close l w =
    (case release_fault f w of
       Some e \<Rightarrow> (Raises (OSError e), l, snd (close_stream f w))
     | None \<Rightarrow>
        (case release_fault c (snd (close_stream f w)) of
           Some e \<Rightarrow> (Raises (OSError e), l, snd (close_socket c (snd (close_stream f w))))
         | None \<Rightarrow>
            (fst (close_socket s (snd (close_socket c (snd (close_stream f w))))), l,
             snd (close_socket s (snd (close_socket c (snd (close_stream f w))))))))"
  using assms
  by (simp add: TcpServer_close_def close_stream_def close_socket_def release_def
      split: option.splits prod.splits)

lemma TcpClient_close_connected:
  assumes "cstream k = Some f" "client k = Some s"
  shows "TcpClient_close k w =
    (case release_fault f w of
       Some e \<Rightarrow> (Raises (OSError e), k, snd (close_stream f w))
     | None \<Rightarrow>
        (fst (close_socket s (snd (close_stream f w))), k,
         snd (close_socket s (snd (close_stream f w)))))"
  using assms
  by (simp add: TcpClient_close_def close_stream_def close_socket_def release_def
      split: option.splits prod.splits)

section \<open>Teardown\<close>

text \<open>
  C1, as the spec has it: when a release step inside \<^verbatim>\<open>close()\<close> raises, the remaining
  steps are still attempted. The source has no \<^verbatim>\<open>try\<close> around any step. A Listener is
  constructed and its peer connects; the stream cannot be flushed at the end
  (\<^verbatim>\<open>EPIPE\<close>). Then \<^verbatim>\<open>close()\<close> raises that error after the one call
  \<^verbatim>\<open>stream.close()\<close>: the peer socket 1 and the listening socket 0 stay open, and
  neither \<^verbatim>\<open>clientsock.close()\<close> nor \<^verbatim>\<open>serversock.close()\<close> is called.
\<close>

theorem close_abandons_later_releases:
  "TcpServer_init ''127.0.0.1'' 3000 broken_pipe_world =
     (Returns (), listener_ex,
      broken_pipe_world\<lparr>fresh := 3, incoming := [], open_res := [2, 1, 0],
        trace := listener_calls (''127.0.0.1'', 3000) 0 1 2\<rparr>)
   \<and> TcpServer_close listener_ex
        (broken_pipe_world\<lparr>fresh := 3, incoming := [], open_res := [2, 1, 0],
           trace := listener_calls (''127.0.0.1'', 3000) 0 1 2\<rparr>) =
       (Raises (OSError EPIPE), listener_ex,
        broken_pipe_world\<lparr>fresh := 3, incoming := [], open_res := [1, 0],
          trace := listener_calls (''127.0.0.1'', 3000) 0 1 2 @ [CloseStream 2]\<rparr>)"
  by (simp add: TcpServer_init_def TcpServer_close_def lib_defs release_fault_def
      listener_calls_def listener_ex_def broken_pipe_world_def quiet_world_def)

text \<open>
  C1, amended: when a release step inside \<^verbatim>\<open>close()\<close> raises, the error leaves
  \<^verbatim>\<open>close()\<close> at once. The steps before it were made, the failing one was attempted, and
  no later one is: if closing the Stream raises, neither socket of the Listener (nor the
  socket of the Connector) is closed; if closing the Listener's peer socket raises, the
  listening socket is not closed.
\<close>

theorem close_stops_at_first_failure:
  "(stream l = Some f \<and> clientsock l = Some c \<and> serversock l = Some s \<and> f \<noteq> c
      \<and> TcpServer_close l w = (r, l', w') \<longrightarrow>
      (release_fault f w = Some e \<longrightarrow>
         r = Raises (OSError e) \<and> new_calls w w' = [CloseStream f]
         \<and> open_res w' = removeAll f (open_res w))
    \<and> (release_fault f w = None \<and> release_fault c w = Some e \<longrightarrow>
         r = Raises (OSError e) \<and> new_calls w w' = [CloseStream f, CloseSocket c]
         \<and> open_res w' = removeAll c (removeAll f (open_res w))))
   \<and> (cstream k = Some g \<and> client k = Some t \<and> TcpClient_close k v = (q, k', v') \<longrightarrow>
      (release_fault g v = Some d \<longrightarrow>
         q = Raises (OSError d) \<and> new_calls v v' = [CloseStream g]
         \<and> open_res v' = removeAll g (open_res v)))"
proof (intro conjI impI)
  assume "stream l = Some f \<and> clientsock l = Some c \<and> serversock l = Some s \<and> f \<noteq> c
      \<and> TcpServer_close l w = (r, l', w')"
  then have h: "stream l = Some f" "clientsock l = Some c" "serversock l = Some s"
    and fc: "f \<noteq> c" and run: "TcpServer_close l w = (r, l', w')"
    by simp_all
  {
    assume "release_fault f w = Some e"
    with run have "(r, l', w') = (Raises (OSError e), l, snd (close_stream f w))"
      by (simp add: TcpServer_close_connected [OF h])
    then show "r = Raises (OSError e)" "new_calls w w' = [CloseStream f]"
      "open_res w' = removeAll f (open_res w)"
      by (simp_all add: snd_close_stream new_calls_def)
  }
  {
    assume "release_fault f w = None \<and> release_fault c w = Some e"
    then have "release_fault f w = None" "release_fault c (snd (close_stream f w)) = Some e"
      using fc by (simp_all add: close_stream_def release_def release_fault_after)
    with run have "(r, l', w') =
        (Raises (OSError e), l, snd (close_socket c (snd (close_stream f w))))"
      by (simp add: TcpServer_close_connected [OF h])
    then show "r = Raises (OSError e)" "new_calls w w' = [CloseStream f, CloseSocket c]"
      "open_res w' = removeAll c (removeAll f (open_res w))"
      by (simp_all add: snd_close_stream snd_close_socket new_calls_def)
  }
next
  assume "cstream k = Some g \<and> client k = Some t \<and> TcpClient_close k v = (q, k', v')"
  then have h: "cstream k = Some g" "client k = Some t"
    and run: "TcpClient_close k v = (q, k', v')"
    by simp_all
  assume "release_fault g v = Some d"
  with run have "(q, k', v') = (Raises (OSError d), k, snd (close_stream g v))"
    by (simp add: TcpClient_close_connected [OF h])
  then show "q = Raises (OSError d)" "new_calls v v' = [CloseStream g]"
    "open_res v' = removeAll g (open_res v)"
    by (simp_all add: snd_close_stream new_calls_def)
qed

theorem close_stops_at_first_failure_witness:
  "(stream listener_ex = Some 2 \<and> clientsock listener_ex = Some 1
      \<and> serversock listener_ex = Some 0 \<and> (2::handle) \<noteq> 1
      \<and> release_fault 2 (listener_world [(2, EPIPE)]) = Some EPIPE
      \<and> TcpServer_close listener_ex (listener_world [(2, EPIPE)]) =
          (Raises (OSError EPIPE), listener_ex,
           (listener_world [(2, EPIPE)])\<lparr>open_res := [1, 0], trace := [CloseStream 2]\<rparr>)
      \<and> new_calls (listener_world [(2, EPIPE)])
           ((listener_world [(2, EPIPE)])\<lparr>open_res := [1, 0], trace := [CloseStream 2]\<rparr>)
         = [CloseStream 2])
   \<and> (release_fault 2 (listener_world [(1, EIO)]) = None
      \<and> release_fault 1 (listener_world [(1, EIO)]) = Some EIO
      \<and> TcpServer_close listener_ex (listener_world [(1, EIO)]) =
          (Raises (OSError EIO), listener_ex,
           (listener_world [(1, EIO)])
             \<lparr>open_res := [0], trace := [CloseStream 2, CloseSocket 1]\<rparr>)
      \<and> new_calls (listener_world [(1, EIO)])
           ((listener_world [(1, EIO)])
             \<lparr>open_res := [0], trace := [CloseStream 2, CloseSocket 1]\<rparr>)
         = [CloseStream 2, CloseSocket 1])
   \<and> (cstream connector_ex = Some 1 \<and> client connector_ex = Some 0
      \<and> release_fault 1 (connector_world [(1, EPIPE)]) = Some EPIPE
      \<and> TcpClient_close connector_ex (connector_world [(1, EPIPE)]) =
          (Raises (OSError EPIPE), connector_ex,
           (connector_world [(1, EPIPE)])\<lparr>open_res := [0], trace := [CloseStream 1]\<rparr>)
      \<and> new_calls (connector_world [(1, EPIPE)])
           ((connector_world [(1, EPIPE)])\<lparr>open_res := [0], trace := [CloseStream 1]\<rparr>)
         = [CloseStream 1])"
proof -
  have fields: "stream listener_ex = Some 2" "clientsock listener_ex = Some 1"
    "serversock listener_ex = Some 0" "cstream connector_ex = Some 1"
    "client connector_ex = Some 0"
    by (simp_all add: listener_ex_def connector_ex_def)
  have faults: "release_fault 2 (listener_world [(2, EPIPE)]) = Some EPIPE"
    "release_fault 2 (listener_world [(1, EIO)]) = None"
    "release_fault 1 (listener_world [(1, EIO)]) = Some EIO"
    "release_fault 1 (connector_world [(1, EPIPE)]) = Some EPIPE"
    by (simp_all add: release_fault_def listener_world_def connector_world_def)
  have runs: "TcpServer_close listener_ex (listener_world [(2, EPIPE)]) =
      (Raises (OSError EPIPE), listener_ex,
       (listener_world [(2, EPIPE)])\<lparr>open_res := [1, 0], trace := [CloseStream 2]\<rparr>)"
    "TcpServer_close listener_ex (listener_world [(1, EIO)]) =
      (Raises (OSError EIO), listener_ex,
       (listener_world [(1, EIO)])
         \<lparr>open_res := [0], trace := [CloseStream 2, CloseSocket 1]\<rparr>)"
    "TcpClient_close connector_ex (connector_world [(1, EPIPE)]) =
      (Raises (OSError EPIPE), connector_ex,
       (connector_world [(1, EPIPE)])\<lparr>open_res := [0], trace := [CloseStream 1]\<rparr>)"
    by (simp_all add: TcpServer_close_def TcpClient_close_def close_stream_def close_socket_def
        release_def release_fault_def emit_def listener_ex_def connector_ex_def
        listener_world_def connector_world_def)
  note stream_fails = close_stops_at_first_failure
    [where l = listener_ex and f = 2 and c = 1 and s = 0 and e = EPIPE
       and w = "listener_world [(2, EPIPE)]" and r = "Raises (OSError EPIPE)"
       and l' = listener_ex
       and w' = "(listener_world [(2, EPIPE)])\<lparr>open_res := [1, 0], trace := [CloseStream 2]\<rparr>"
       and k = connector_ex and g = 1 and t = 0 and d = EPIPE
       and v = "connector_world [(1, EPIPE)]" and q = "Raises (OSError EPIPE)"
       and k' = connector_ex
       and v' = "(connector_world [(1, EPIPE)])\<lparr>open_res := [0], trace := [CloseStream 1]\<rparr>"]
  note peer_fails = close_stops_at_first_failure
    [where l = listener_ex and f = 2 and c = 1 and s = 0 and e = EIO
       and w = "listener_world [(1, EIO)]" and r = "Raises (OSError EIO)"
       and l' = listener_ex
       and w' = "(listener_world [(1, EIO)])
             \<lparr>open_res := [0], trace := [CloseStream 2, CloseSocket 1]\<rparr>"
       and k = connector_ex and g = 1 and t = 0 and d = EPIPE
       and v = "connector_world [(1, EPIPE)]" and q = "Raises (OSError EPIPE)"
       and k' = connector_ex
       and v' = "(connector_world [(1, EPIPE)])\<lparr>open_res := [0], trace := [CloseStream 1]\<rparr>"]
  show ?thesis
    using stream_fails peer_fails fields faults runs
    by (simp add: listener_world_def connector_world_def new_calls_def)
qed

text \<open>
  C2: \<^verbatim>\<open>TcpServer.close()\<close> releases the Stream, then the accepted peer socket, then the
  listening socket; \<^verbatim>\<open>TcpClient.close()\<close> the Stream, then the socket. The release calls
  of any \<^verbatim>\<open>close()\<close> are an initial part of that sequence, and all of it when the method
  returns.
\<close>

theorem close_release_order:
  "(stream l = Some f \<and> clientsock l = Some c \<and> serversock l = Some s
      \<and> TcpServer_close l w = (r, l', w') \<longrightarrow>
      prefix (new_calls w w') [CloseStream f, CloseSocket c, CloseSocket s]
      \<and> (r = Returns () \<longrightarrow> new_calls w w' = [CloseStream f, CloseSocket c, CloseSocket s]))
   \<and> (cstream k = Some g \<and> client k = Some t \<and> TcpClient_close k v = (q, k', v') \<longrightarrow>
      prefix (new_calls v v') [CloseStream g, CloseSocket t]
      \<and> (q = Returns () \<longrightarrow> new_calls v v' = [CloseStream g, CloseSocket t]))"
proof (intro conjI impI)
  assume "stream l = Some f \<and> clientsock l = Some c \<and> serversock l = Some s
      \<and> TcpServer_close l w = (r, l', w')"
  then have h: "stream l = Some f" "clientsock l = Some c" "serversock l = Some s"
    and run: "TcpServer_close l w = (r, l', w')"
    by simp_all
  from run show "prefix (new_calls w w') [CloseStream f, CloseSocket c, CloseSocket s]"
    unfolding TcpServer_close_connected [OF h]
    by (auto simp: snd_close_stream snd_close_socket new_calls_def split: option.splits)
  assume "r = Returns ()"
  with run show "new_calls w w' = [CloseStream f, CloseSocket c, CloseSocket s]"
    unfolding TcpServer_close_connected [OF h]
    by (auto simp: snd_close_stream snd_close_socket new_calls_def split: option.splits)
next
  assume "cstream k = Some g \<and> client k = Some t \<and> TcpClient_close k v = (q, k', v')"
  then have h: "cstream k = Some g" "client k = Some t"
    and run: "TcpClient_close k v = (q, k', v')"
    by simp_all
  from run show "prefix (new_calls v v') [CloseStream g, CloseSocket t]"
    unfolding TcpClient_close_connected [OF h]
    by (auto simp: snd_close_stream snd_close_socket new_calls_def split: option.splits)
  assume "q = Returns ()"
  with run show "new_calls v v' = [CloseStream g, CloseSocket t]"
    unfolding TcpClient_close_connected [OF h]
    by (auto simp: snd_close_stream snd_close_socket new_calls_def split: option.splits)
qed

theorem close_release_order_witness:
  "stream listener_ex = Some 2 \<and> clientsock listener_ex = Some 1
   \<and> serversock listener_ex = Some 0
   \<and> TcpServer_close listener_ex (listener_world []) =
        (Returns (), listener_ex,
         (listener_world [])
           \<lparr>open_res := [], trace := [CloseStream 2, CloseSocket 1, CloseSocket 0]\<rparr>)
   \<and> new_calls (listener_world [])
        ((listener_world [])
           \<lparr>open_res := [], trace := [CloseStream 2, CloseSocket 1, CloseSocket 0]\<rparr>)
      = [CloseStream 2, CloseSocket 1, CloseSocket 0]
   \<and> cstream connector_ex = Some 1 \<and> client connector_ex = Some 0
   \<and> TcpClient_close connector_ex (connector_world []) =
        (Returns (), connector_ex,
         (connector_world [])\<lparr>open_res := [], trace := [CloseStream 1, CloseSocket 0]\<rparr>)
   \<and> new_calls (connector_world [])
        ((connector_world [])\<lparr>open_res := [], trace := [CloseStream 1, CloseSocket 0]\<rparr>)
      = [CloseStream 1, CloseSocket 0]"
proof -
  have fields: "stream listener_ex = Some 2" "clientsock listener_ex = Some 1"
    "serversock listener_ex = Some 0" "cstream connector_ex = Some 1"
    "client connector_ex = Some 0"
    by (simp_all add: listener_ex_def connector_ex_def)
  have runs: "TcpServer_close listener_ex (listener_world []) =
      (Returns (), listener_ex,
       (listener_world [])
         \<lparr>open_res := [], trace := [CloseStream 2, CloseSocket 1, CloseSocket 0]\<rparr>)"
    "TcpClient_close connector_ex (connector_world []) =
      (Returns (), connector_ex,
       (connector_world [])\<lparr>open_res := [], trace := [CloseStream 1, CloseSocket 0]\<rparr>)"
    by (simp_all add: TcpServer_close_def TcpClient_close_def close_stream_def close_socket_def
        release_def release_fault_def emit_def listener_ex_def connector_ex_def
        listener_world_def connector_world_def)
  note order = close_release_order
    [where l = listener_ex and f = 2 and c = 1 and s = 0 and w = "listener_world []"
       and r = "Returns ()" and l' = listener_ex
       and w' = "(listener_world [])
           \<lparr>open_res := [], trace := [CloseStream 2, CloseSocket 1, CloseSocket 0]\<rparr>"
       and k = connector_ex and g = 1 and t = 0 and v = "connector_world []"
       and q = "Returns ()" and k' = connector_ex
       and v' = "(connector_world [])
           \<lparr>open_res := [], trace := [CloseStream 1, CloseSocket 0]\<rparr>"]
  show ?thesis
    using order fields runs
    by (simp add: listener_world_def connector_world_def new_calls_def)
qed

section \<open>Construction\<close>

text \<open>
  C3: constructing a Listener enables address reuse on the listening socket, binds it to
  the given endpoint, listens with a backlog of one, and then accepts, all inside the
  constructor: whatever the outcome, the calls made are an initial part of that
  sequence. The constructor blocks exactly when the bind returned and no peer connects,
  and then \<^verbatim>\<open>accept\<close> is its last call. When the bind raises, for whatever reason, the
  constructor raises that error and \<^verbatim>\<open>bind\<close> is its last call. When the constructor
  returns, the whole sequence was run with one \<^verbatim>\<open>accept\<close>, exactly one incoming peer
  was taken, and the accepted socket is the one wrapped as the stream.
\<close>

theorem TcpServer_init_sequence:
  "TcpServer_init ip port w = (r, l, w') \<longrightarrow>
     prefix (new_calls w w')
       (listener_calls (ip, port) (fresh w) (Suc (fresh w)) (Suc (Suc (fresh w))))
   \<and> (r = Returns () \<longrightarrow>
        new_calls w w' =
          listener_calls (ip, port) (fresh w) (Suc (fresh w)) (Suc (Suc (fresh w)))
        \<and> (\<exists>a. incoming w = PeerConnects a # incoming w'
             \<and> l = \<lparr>serversock = Some (fresh w), clientsock = Some (Suc (fresh w)),
                     client_address = Some a, stream = Some (Suc (Suc (fresh w)))\<rparr>))
   \<and> ((r = Blocks) = (bind_refusal (ip, port) w = None \<and> incoming w = []))
   \<and> (r = Blocks \<longrightarrow>
        new_calls w w' =
          take 6 (listener_calls (ip, port) (fresh w) (Suc (fresh w)) (Suc (Suc (fresh w)))))
   \<and> (bind_refusal (ip, port) w = Some e \<longrightarrow>
        r = Raises e
        \<and> new_calls w w' =
          take 3 (listener_calls (ip, port) (fresh w) (Suc (fresh w)) (Suc (Suc (fresh w)))))"
  by (auto simp: TcpServer_init_def call_defs new_calls_def listener_calls_def Let_def
      split: option.splits list.splits accept_event.splits prod.splits)

theorem TcpServer_init_sequence_witness:
  "TcpServer_init ''127.0.0.1'' 3000 quiet_world =
     (Returns (),
      \<lparr>serversock = Some 0, clientsock = Some 1,
       client_address = Some (''127.0.0.1'', 50412), stream = Some 2\<rparr>,
      quiet_world\<lparr>fresh := 3, incoming := [], open_res := [2, 1, 0],
        trace := listener_calls (''127.0.0.1'', 3000) 0 1 2\<rparr>)
   \<and> new_calls quiet_world
        (quiet_world\<lparr>fresh := 3, incoming := [], open_res := [2, 1, 0],
           trace := listener_calls (''127.0.0.1'', 3000) 0 1 2\<rparr>)
      = [Socket 0, SetSockOpt 0 SO_REUSEADDR 1, Bind 0 (''127.0.0.1'', 3000), Listen 0 1,
         Print ''Waiting for connections...'', Accept 0, Makefile 1 ''rw'' ''utf-8'' 2,
         Print ''Connected!'']
   \<and> TcpServer_init ''127.0.0.1'' 3000 lonely_world =
       (Blocks,
        \<lparr>serversock = Some 0, clientsock = None, client_address = None, stream = None\<rparr>,
        lonely_world\<lparr>fresh := 1, open_res := [0],
          trace := take 6 (listener_calls (''127.0.0.1'', 3000) 0 1 2)\<rparr>)
   \<and> new_calls lonely_world
        (lonely_world\<lparr>fresh := 1, open_res := [0],
           trace := take 6 (listener_calls (''127.0.0.1'', 3000) 0 1 2)\<rparr>)
      = [Socket 0, SetSockOpt 0 SO_REUSEADDR 1, Bind 0 (''127.0.0.1'', 3000), Listen 0 1,
         Print ''Waiting for connections...'', Accept 0]
   \<and> bind_refusal (''127.0.0.1'', 70000) quiet_world = Some OverflowError
   \<and> TcpServer_init ''127.0.0.1'' 70000 quiet_world =
       (Raises OverflowError,
        \<lparr>serversock = Some 0, clientsock = None, client_address = None, stream = None\<rparr>,
        quiet_world\<lparr>fresh := 1, open_res := [0],
          trace := take 3 (listener_calls (''127.0.0.1'', 70000) 0 1 2)\<rparr>)
   \<and> new_calls quiet_world
        (quiet_world\<lparr>fresh := 1, open_res := [0],
           trace := take 3 (listener_calls (''127.0.0.1'', 70000) 0 1 2)\<rparr>)
      = [Socket 0, SetSockOpt 0 SO_REUSEADDR 1, Bind 0 (''127.0.0.1'', 70000)]"
proof -
  have runs: "TcpServer_init ''127.0.0.1'' 3000 quiet_world =
     (Returns (),
      \<lparr>serversock = Some 0, clientsock = Some 1,
       client_address = Some (''127.0.0.1'', 50412), stream = Some 2\<rparr>,
      quiet_world\<lparr>fresh := 3, incoming := [], open_res := [2, 1, 0],
        trace := listener_calls (''127.0.0.1'', 3000) 0 1 2\<rparr>)"
    "TcpServer_init ''127.0.0.1'' 3000 lonely_world =
       (Blocks,
        \<lparr>serversock = Some 0, clientsock = None, client_address = None, stream = None\<rparr>,
        lonely_world\<lparr>fresh := 1, open_res := [0],
          trace := take 6 (listener_calls (''127.0.0.1'', 3000) 0 1 2)\<rparr>)"
    "TcpServer_init ''127.0.0.1'' 70000 quiet_world =
       (Raises OverflowError,
        \<lparr>serversock = Some 0, clientsock = None, client_address = None, stream = None\<rparr>,
        quiet_world\<lparr>fresh := 1, open_res := [0],
          trace := take 3 (listener_calls (''127.0.0.1'', 70000) 0 1 2)\<rparr>)"
    by (simp_all add: TcpServer_init_def lib_defs listener_calls_def quiet_world_def
        lonely_world_def)
  have refusals: "bind_refusal (''127.0.0.1'', 3000) quiet_world = None"
    "bind_refusal (''127.0.0.1'', 3000) lonely_world = None"
    "bind_refusal (''127.0.0.1'', 70000) quiet_world = Some OverflowError"
    by (simp_all add: bind_refusal_def address_error_def quiet_world_def lonely_world_def)
  note returns = TcpServer_init_sequence
    [where ip = "''127.0.0.1''" and port = 3000 and w = quiet_world and r = "Returns ()"
       and l = "\<lparr>serversock = Some 0, clientsock = Some 1,
                 client_address = Some (''127.0.0.1'', 50412), stream = Some 2\<rparr>"
       and w' = "quiet_world\<lparr>fresh := 3, incoming := [], open_res := [2, 1, 0],
                   trace := listener_calls (''127.0.0.1'', 3000) 0 1 2\<rparr>"]
  note blocks = TcpServer_init_sequence
    [where ip = "''127.0.0.1''" and port = 3000 and w = lonely_world and r = Blocks
       and l = "\<lparr>serversock = Some 0, clientsock = None, client_address = None,
                 stream = None\<rparr>"
       and w' = "lonely_world\<lparr>fresh := 1, open_res := [0],
                   trace := take 6 (listener_calls (''127.0.0.1'', 3000) 0 1 2)\<rparr>"]
  note raises = TcpServer_init_sequence
    [where ip = "''127.0.0.1''" and port = 70000 and w = quiet_world
       and r = "Raises OverflowError" and e = OverflowError
       and l = "\<lparr>serversock = Some 0, clientsock = None, client_address = None,
                 stream = None\<rparr>"
       and w' = "quiet_world\<lparr>fresh := 1, open_res := [0],
                   trace := take 3 (listener_calls (''127.0.0.1'', 70000) 0 1 2)\<rparr>"]
  show ?thesis
    using returns blocks raises runs refusals
    by (simp add: quiet_world_def lonely_world_def listener_calls_def new_calls_def)
qed

text \<open>
  C5: when another listener already holds the bind address, constructing a Listener
  raises the bind's error, address in use, which the spec calls a \<open>BindError\<close>. The
  constructor stops at \<^verbatim>\<open>bind\<close>: \<^verbatim>\<open>accept\<close> and \<^verbatim>\<open>makefile\<close> are never called, the
  object has neither a peer socket nor a stream, only the listening socket was created,
  and no incoming peer was taken.
\<close>

theorem TcpServer_init_address_in_use:
  "(ip, port) \<in> set (bound_elsewhere w) \<and> TcpServer_init ip port w = (r, l, w') \<longrightarrow>
     r = Raises (OSError EADDRINUSE) \<and> (\<exists>e. r = Raises e \<and> BindError e)
   \<and> clientsock l = None \<and> client_address l = None \<and> stream l = None
   \<and> new_calls w w' =
        [Socket (fresh w), SetSockOpt (fresh w) SO_REUSEADDR 1, Bind (fresh w) (ip, port)]
   \<and> open_res w' = fresh w # open_res w \<and> incoming w' = incoming w"
  by (auto simp: TcpServer_init_def call_defs bind_refusal_def new_calls_def BindError_def
      Let_def)

theorem TcpServer_init_address_in_use_witness:
  "(''127.0.0.1'', 3000) \<in> set (bound_elsewhere busy_world)
   \<and> TcpServer_init ''127.0.0.1'' 3000 busy_world =
       (Raises (OSError EADDRINUSE),
        \<lparr>serversock = Some 0, clientsock = None, client_address = None, stream = None\<rparr>,
        busy_world\<lparr>fresh := 1, open_res := [0],
          trace := [Socket 0, SetSockOpt 0 SO_REUSEADDR 1, Bind 0 (''127.0.0.1'', 3000)]\<rparr>)
   \<and> new_calls busy_world
        (busy_world\<lparr>fresh := 1, open_res := [0],
           trace := [Socket 0, SetSockOpt 0 SO_REUSEADDR 1, Bind 0 (''127.0.0.1'', 3000)]\<rparr>)
      = [Socket 0, SetSockOpt 0 SO_REUSEADDR 1, Bind 0 (''127.0.0.1'', 3000)]"
proof -
  have run: "TcpServer_init ''127.0.0.1'' 3000 busy_world =
       (Raises (OSError EADDRINUSE),
        \<lparr>serversock = Some 0, clientsock = None, client_address = None, stream = None\<rparr>,
        busy_world\<lparr>fresh := 1, open_res := [0],
          trace := [Socket 0, SetSockOpt 0 SO_REUSEADDR 1, Bind 0 (''127.0.0.1'', 3000)]\<rparr>)"
    by (simp add: TcpServer_init_def lib_defs busy_world_def quiet_world_def)
  note refused = TcpServer_init_address_in_use
    [where ip = "''127.0.0.1''" and port = 3000 and w = busy_world
       and r = "Raises (OSError EADDRINUSE)"
       and l = "\<lparr>serversock = Some 0, clientsock = None, client_address = None,
                 stream = None\<rparr>"
       and w' = "busy_world\<lparr>fresh := 1, open_res := [0],
          trace := [Socket 0, SetSockOpt 0 SO_REUSEADDR 1, Bind 0 (''127.0.0.1'', 3000)]\<rparr>"]
  show ?thesis
    using refused run by (simp add: busy_world_def quiet_world_def)
qed

text \<open>
  C6: whatever error \<^verbatim>\<open>connect\<close> raises, it leaves the Connector's constructor as it
  is, after one \<^verbatim>\<open>connect\<close> call and no other call: no second attempt, no
  \<^verbatim>\<open>makefile\<close>, and the object has no stream. Toward an endpoint that is an address
  (the host resolves, the port is in \<^verbatim>\<open>0..65535\<close>) which the connection reaches and where
  nobody listens, the error is connection refused, a \<^verbatim>\<open>ConnectionError\<close>.
\<close>

theorem TcpClient_init_no_listener:
  "(connect_refusal (ip, port) w = Some e \<and> TcpClient_init ip port w = (r, k, w') \<longrightarrow>
      r = Raises e \<and> cstream k = None
      \<and> new_calls w w' = [Socket (fresh w), Connect (fresh w) (ip, port)])
   \<and> (ip \<notin> set (unresolvable w) \<and> 0 \<le> port \<and> port \<le> 65535
      \<and> map_of (connect_faults w) (ip, port) = None \<and> (ip, port) \<notin> set (listeners w)
      \<and> TcpClient_init ip port w = (r, k, w') \<longrightarrow>
      r = Raises (OSError ECONNREFUSED) \<and> (\<exists>x. r = Raises x \<and> ConnectionError x)
      \<and> cstream k = None
      \<and> new_calls w w' = [Socket (fresh w), Connect (fresh w) (ip, port)])"
proof (intro conjI impI)
  assume "connect_refusal (ip, port) w = Some e \<and> TcpClient_init ip port w = (r, k, w')"
  then show "r = Raises e" "cstream k = None"
    "new_calls w w' = [Socket (fresh w), Connect (fresh w) (ip, port)]"
    by (auto simp: TcpClient_init_def call_defs new_calls_def Let_def)
next
  assume "ip \<notin> set (unresolvable w) \<and> 0 \<le> port \<and> port \<le> 65535
      \<and> map_of (connect_faults w) (ip, port) = None \<and> (ip, port) \<notin> set (listeners w)
      \<and> TcpClient_init ip port w = (r, k, w')"
  then have refused: "connect_refusal (ip, port) w = Some (OSError ECONNREFUSED)"
    and run: "TcpClient_init ip port w = (r, k, w')"
    by (simp_all add: connect_refusal_def address_error_def)
  from refused run show "r = Raises (OSError ECONNREFUSED)" "cstream k = None"
    "new_calls w w' = [Socket (fresh w), Connect (fresh w) (ip, port)]"
    by (auto simp: TcpClient_init_def call_defs new_calls_def Let_def)
  then show "\<exists>x. r = Raises x \<and> ConnectionError x"
    by (simp add: ConnectionError_def)
qed

theorem TcpClient_init_no_listener_witness:
  "''127.0.0.1'' \<notin> set (unresolvable deaf_world) \<and> (0::int) \<le> 3000 \<and> (3000::int) \<le> 65535
   \<and> map_of (connect_faults deaf_world) (''127.0.0.1'', 3000) = None
   \<and> (''127.0.0.1'', 3000) \<notin> set (listeners deaf_world)
   \<and> connect_refusal (''127.0.0.1'', 3000) deaf_world = Some (OSError ECONNREFUSED)
   \<and> TcpClient_init ''127.0.0.1'' 3000 deaf_world =
       (Raises (OSError ECONNREFUSED), \<lparr>client = Some 0, cstream = None\<rparr>,
        deaf_world\<lparr>fresh := 1, open_res := [0],
          trace := [Socket 0, Connect 0 (''127.0.0.1'', 3000)]\<rparr>)
   \<and> new_calls deaf_world
        (deaf_world\<lparr>fresh := 1, open_res := [0],
           trace := [Socket 0, Connect 0 (''127.0.0.1'', 3000)]\<rparr>)
      = [Socket 0, Connect 0 (''127.0.0.1'', 3000)]
   \<and> ConnectionError (OSError ECONNREFUSED)
   \<and> connect_refusal (''127.0.0.1'', - 1) quiet_world = Some OverflowError
   \<and> TcpClient_init ''127.0.0.1'' (- 1) quiet_world =
       (Raises OverflowError, \<lparr>client = Some 0, cstream = None\<rparr>,
        quiet_world\<lparr>fresh := 1, open_res := [0],
          trace := [Socket 0, Connect 0 (''127.0.0.1'', - 1)]\<rparr>)"
proof -
  have runs: "TcpClient_init ''127.0.0.1'' 3000 deaf_world =
       (Raises (OSError ECONNREFUSED), \<lparr>client = Some 0, cstream = None\<rparr>,
        deaf_world\<lparr>fresh := 1, open_res := [0],
          trace := [Socket 0, Connect 0 (''127.0.0.1'', 3000)]\<rparr>)"
    "TcpClient_init ''127.0.0.1'' (- 1) quiet_world =
       (Raises OverflowError, \<lparr>client = Some 0, cstream = None\<rparr>,
        quiet_world\<lparr>fresh := 1, open_res := [0],
          trace := [Socket 0, Connect 0 (''127.0.0.1'', - 1)]\<rparr>)"
    by (simp_all add: TcpClient_init_def lib_defs deaf_world_def quiet_world_def)
  have refusals: "connect_refusal (''127.0.0.1'', 3000) deaf_world = Some (OSError ECONNREFUSED)"
    "connect_refusal (''127.0.0.1'', - 1) quiet_world = Some OverflowError"
    by (simp_all add: connect_refusal_def address_error_def deaf_world_def quiet_world_def)
  note refused = TcpClient_init_no_listener
    [where ip = "''127.0.0.1''" and port = 3000 and w = deaf_world
       and e = "OSError ECONNREFUSED" and r = "Raises (OSError ECONNREFUSED)"
       and k = "\<lparr>client = Some 0, cstream = None\<rparr>"
       and w' = "deaf_world\<lparr>fresh := 1, open_res := [0],
          trace := [Socket 0, Connect 0 (''127.0.0.1'', 3000)]\<rparr>"]
  note bad_port = TcpClient_init_no_listener
    [where ip = "''127.0.0.1''" and port = "- 1" and w = quiet_world
       and e = OverflowError and r = "Raises OverflowError"
       and k = "\<lparr>client = Some 0, cstream = None\<rparr>"
       and w' = "quiet_world\<lparr>fresh := 1, open_res := [0],
          trace := [Socket 0, Connect 0 (''127.0.0.1'', - 1)]\<rparr>"]
  show ?thesis
    using refused bad_port runs refusals
    by (simp add: deaf_world_def quiet_world_def new_calls_def ConnectionError_def)
qed

text \<open>
  C9: on both components the connected socket, the accepted one of the Listener and the
  Connector's own, is the one handed to \<^verbatim>\<open>makefile\<close>, once, with a mode that asks for
  text reading and writing and with the encoding \<^verbatim>\<open>utf-8\<close>; the object it returns is
  kept as the stream.
\<close>

theorem makefile_text_read_write_utf8:
  "(TcpServer_init ip port w = (Returns (), l, w') \<longrightarrow>
      (\<exists>c f mode. clientsock l = Some c \<and> stream l = Some f \<and> text_read_write mode
         \<and> filter is_makefile (new_calls w w') = [Makefile c mode ''utf-8'' f]
         \<and> prefix [Socket (fresh w), SetSockOpt (fresh w) SO_REUSEADDR 1,
                    Bind (fresh w) (ip, port), Listen (fresh w) 1,
                    Print ''Waiting for connections...'', Accept (fresh w),
                    Makefile c mode ''utf-8'' f] (new_calls w w')))
   \<and> (TcpClient_init ip port v = (Returns (), k, v') \<longrightarrow>
      (\<exists>s f mode. client k = Some s \<and> cstream k = Some f \<and> text_read_write mode
         \<and> filter is_makefile (new_calls v v') = [Makefile s mode ''utf-8'' f]
         \<and> prefix [Socket s, Connect s (ip, port), Makefile s mode ''utf-8'' f]
              (new_calls v v')))"
  by (auto simp: TcpServer_init_def TcpClient_init_def call_defs new_calls_def
        text_read_write_def Let_def
      split: option.splits list.splits accept_event.splits prod.splits)

theorem makefile_text_read_write_utf8_witness:
  "TcpServer_init ''127.0.0.1'' 3000 quiet_world =
     (Returns (),
      \<lparr>serversock = Some 0, clientsock = Some 1,
       client_address = Some (''127.0.0.1'', 50412), stream = Some 2\<rparr>,
      quiet_world\<lparr>fresh := 3, incoming := [], open_res := [2, 1, 0],
        trace := listener_calls (''127.0.0.1'', 3000) 0 1 2\<rparr>)
   \<and> filter is_makefile
        (new_calls quiet_world
           (quiet_world\<lparr>fresh := 3, incoming := [], open_res := [2, 1, 0],
              trace := listener_calls (''127.0.0.1'', 3000) 0 1 2\<rparr>))
      = [Makefile 1 ''rw'' ''utf-8'' 2]
   \<and> TcpClient_init ''127.0.0.1'' 3000 quiet_world =
       (Returns (), \<lparr>client = Some 0, cstream = Some 1\<rparr>,
        quiet_world\<lparr>fresh := 2, open_res := [1, 0],
          trace := [Socket 0, Connect 0 (''127.0.0.1'', 3000), Makefile 0 ''rw'' ''utf-8'' 1,
                    Print ''Connected!'']\<rparr>)
   \<and> filter is_makefile
        (new_calls quiet_world
           (quiet_world\<lparr>fresh := 2, open_res := [1, 0],
              trace := [Socket 0, Connect 0 (''127.0.0.1'', 3000),
                        Makefile 0 ''rw'' ''utf-8'' 1, Print ''Connected!'']\<rparr>))
      = [Makefile 0 ''rw'' ''utf-8'' 1]"
proof -
  have runs: "TcpServer_init ''127.0.0.1'' 3000 quiet_world =
     (Returns (),
      \<lparr>serversock = Some 0, clientsock = Some 1,
       client_address = Some (''127.0.0.1'', 50412), stream = Some 2\<rparr>,
      quiet_world\<lparr>fresh := 3, incoming := [], open_res := [2, 1, 0],
        trace := listener_calls (''127.0.0.1'', 3000) 0 1 2\<rparr>)"
    "TcpClient_init ''127.0.0.1'' 3000 quiet_world =
       (Returns (), \<lparr>client = Some 0, cstream = Some 1\<rparr>,
        quiet_world\<lparr>fresh := 2, open_res := [1, 0],
          trace := [Socket 0, Connect 0 (''127.0.0.1'', 3000), Makefile 0 ''rw'' ''utf-8'' 1,
                    Print ''Connected!'']\<rparr>)"
    by (simp_all add: TcpServer_init_def TcpClient_init_def lib_defs listener_calls_def
        quiet_world_def)
  note wrapped = makefile_text_read_write_utf8
    [where ip = "''127.0.0.1''" and port = 3000 and w = quiet_world
       and l = "\<lparr>serversock = Some 0, clientsock = Some 1,
                 client_address = Some (''127.0.0.1'', 50412), stream = Some 2\<rparr>"
       and w' = "quiet_world\<lparr>fresh := 3, incoming := [], open_res := [2, 1, 0],
                   trace := listener_calls (''127.0.0.1'', 3000) 0 1 2\<rparr>"
       and v = quiet_world and k = "\<lparr>client = Some 0, cstream = Some 1\<rparr>"
       and v' = "quiet_world\<lparr>fresh := 2, open_res := [1, 0],
          trace := [Socket 0, Connect 0 (''127.0.0.1'', 3000), Makefile 0 ''rw'' ''utf-8'' 1,
                    Print ''Connected!'']\<rparr>"]
  show ?thesis
    using wrapped runs by (simp add: quiet_world_def listener_calls_def new_calls_def)
qed

section \<open>The stream and the single connection\<close>

lemma TcpServer_get_stream_connected:
  "stream l = Some f \<Longrightarrow>
     TcpServer_get_stream l w =
       (Returns \<lparr>ident = fresh w, wrapped = f\<rparr>, l, w\<lparr>fresh := Suc (fresh w)\<rparr>)"
  by (simp add: TcpServer_get_stream_def DataStream_def)

lemma TcpClient_get_stream_connected:
  "cstream k = Some f \<Longrightarrow>
     TcpClient_get_stream k w =
       (Returns \<lparr>ident = fresh w, wrapped = f\<rparr>, k, w\<lparr>fresh := Suc (fresh w)\<rparr>)"
  by (simp add: TcpClient_get_stream_def DataStream_def)

lemma TcpServer_get_streams_same:
  "stream l = Some f \<Longrightarrow> TcpServer_get_streams n l w = (rs, l', w') \<Longrightarrow>
     l' = l \<and> length rs = n \<and> (\<forall>r \<in> set rs. \<exists>d. r = Returns d \<and> wrapped d = f)
     \<and> trace w' = trace w \<and> open_res w' = open_res w"
proof (induction n arbitrary: w rs l' w')
  case 0
  then show ?case by simp
next
  case (Suc n)
  let ?w1 = "w\<lparr>fresh := Suc (fresh w)\<rparr>"
  obtain rs1 l1 w1 where rest: "TcpServer_get_streams n l ?w1 = (rs1, l1, w1)"
    by (cases "TcpServer_get_streams n l ?w1") auto
  from Suc.IH [OF Suc.prems(1) rest] Suc.prems rest show ?case
    by (auto simp: TcpServer_get_stream_connected)
qed

lemma TcpClient_get_streams_same:
  "cstream k = Some f \<Longrightarrow> TcpClient_get_streams n k w = (rs, k', w') \<Longrightarrow>
     k' = k \<and> length rs = n \<and> (\<forall>r \<in> set rs. \<exists>d. r = Returns d \<and> wrapped d = f)
     \<and> trace w' = trace w \<and> open_res w' = open_res w"
proof (induction n arbitrary: w rs k' w')
  case 0
  then show ?case by simp
next
  case (Suc n)
  let ?w1 = "w\<lparr>fresh := Suc (fresh w)\<rparr>"
  obtain rs1 k1 w1 where rest: "TcpClient_get_streams n k ?w1 = (rs1, k1, w1)"
    by (cases "TcpClient_get_streams n k ?w1") auto
  from Suc.IH [OF Suc.prems(1) rest] Suc.prems rest show ?case
    by (auto simp: TcpClient_get_stream_connected)
qed

text \<open>
  C4: on a connected Listener or Connector, any number of \<^verbatim>\<open>get_stream()\<close> calls all
  return, each an adapter around the one stream object of the component; the calls
  leave the component as it was, make no library call and open or close nothing.
\<close>

theorem get_stream_same_connection:
  "(stream l = Some f \<and> TcpServer_get_streams n l w = (rs, l', w') \<longrightarrow>
      l' = l \<and> length rs = n \<and> (\<forall>r \<in> set rs. \<exists>d. r = Returns d \<and> wrapped d = f)
      \<and> trace w' = trace w \<and> open_res w' = open_res w)
   \<and> (cstream k = Some g \<and> TcpClient_get_streams m k v = (qs, k', v') \<longrightarrow>
      k' = k \<and> length qs = m \<and> (\<forall>q \<in> set qs. \<exists>d. q = Returns d \<and> wrapped d = g)
      \<and> trace v' = trace v \<and> open_res v' = open_res v)"
  using TcpServer_get_streams_same [of l f n w rs l' w']
    TcpClient_get_streams_same [of k g m v qs k' v']
  by blast

theorem get_stream_same_connection_witness:
  "stream listener_ex = Some 2
   \<and> TcpServer_get_streams 3 listener_ex (listener_world []) =
       ([Returns \<lparr>ident = 3, wrapped = 2\<rparr>, Returns \<lparr>ident = 4, wrapped = 2\<rparr>,
         Returns \<lparr>ident = 5, wrapped = 2\<rparr>],
        listener_ex, (listener_world [])\<lparr>fresh := 6\<rparr>)
   \<and> cstream connector_ex = Some 1
   \<and> TcpClient_get_streams 2 connector_ex (connector_world []) =
       ([Returns \<lparr>ident = 2, wrapped = 1\<rparr>, Returns \<lparr>ident = 3, wrapped = 1\<rparr>],
        connector_ex, (connector_world [])\<lparr>fresh := 4\<rparr>)
   \<and> wrapped \<lparr>ident = 5, wrapped = 2\<rparr> = 2
   \<and> trace ((listener_world [])\<lparr>fresh := 6\<rparr>) = trace (listener_world [])"
proof -
  have fields: "stream listener_ex = Some 2" "cstream connector_ex = Some 1"
    by (simp_all add: listener_ex_def connector_ex_def)
  have runs: "TcpServer_get_streams 3 listener_ex (listener_world []) =
       ([Returns \<lparr>ident = 3, wrapped = 2\<rparr>, Returns \<lparr>ident = 4, wrapped = 2\<rparr>,
         Returns \<lparr>ident = 5, wrapped = 2\<rparr>],
        listener_ex, (listener_world [])\<lparr>fresh := 6\<rparr>)"
    "TcpClient_get_streams 2 connector_ex (connector_world []) =
       ([Returns \<lparr>ident = 2, wrapped = 1\<rparr>, Returns \<lparr>ident = 3, wrapped = 1\<rparr>],
        connector_ex, (connector_world [])\<lparr>fresh := 4\<rparr>)"
    by (simp_all add: numeral_3_eq_3 numeral_2_eq_2 TcpServer_get_stream_def
        TcpClient_get_stream_def DataStream_def listener_ex_def connector_ex_def
        listener_world_def connector_world_def)
  note same = get_stream_same_connection
    [where l = listener_ex and f = 2 and n = 3 and w = "listener_world []"
       and rs = "[Returns \<lparr>ident = 3, wrapped = 2\<rparr>, Returns \<lparr>ident = 4, wrapped = 2\<rparr>,
                  Returns \<lparr>ident = 5, wrapped = 2\<rparr>]"
       and l' = listener_ex and w' = "(listener_world [])\<lparr>fresh := 6\<rparr>"
       and k = connector_ex and g = 1 and m = 2 and v = "connector_world []"
       and qs = "[Returns \<lparr>ident = 2, wrapped = 1\<rparr>, Returns \<lparr>ident = 3, wrapped = 1\<rparr>]"
       and k' = connector_ex and v' = "(connector_world [])\<lparr>fresh := 4\<rparr>"]
  show ?thesis
    using same fields runs by simp
qed

lemma TcpServer_close_frame: "TcpServer_close l w = (r, l', w') \<Longrightarrow> l' = l"
  by (auto simp: TcpServer_close_def split: option.splits prod.splits outcome.splits)

lemma TcpClient_close_frame: "TcpClient_close k w = (r, k', w') \<Longrightarrow> k' = k"
  by (auto simp: TcpClient_close_def split: option.splits prod.splits outcome.splits)

lemma TcpServer_close_stream_closed:
  "stream l = Some f \<Longrightarrow> TcpServer_close l w = (r, l', w') \<Longrightarrow> f \<notin> set (open_res w')"
  by (auto simp: TcpServer_close_def close_stream_def close_socket_def release_eq
      split: option.splits prod.splits outcome.splits)

lemma TcpClient_close_stream_closed:
  "cstream k = Some f \<Longrightarrow> TcpClient_close k w = (r, k', w') \<Longrightarrow> f \<notin> set (open_res w')"
  by (auto simp: TcpClient_close_def close_stream_def close_socket_def release_eq
      split: option.splits prod.splits outcome.splits)

text \<open>
  C10: \<^verbatim>\<open>close()\<close> assigns no attribute, so the component is the same object with the
  same fields afterwards, whatever the outcome of \<^verbatim>\<open>close()\<close>. If it had a stream, that
  stream is closed now, and a \<^verbatim>\<open>get_stream()\<close> after the \<^verbatim>\<open>close()\<close> returns a new adapter
  around this same stream.
\<close>

theorem get_stream_after_close:
  "(stream l = Some f \<and> TcpServer_close l w = (r, l', w') \<longrightarrow>
      l' = l \<and> f \<notin> set (open_res w')
      \<and> TcpServer_get_stream l' w' =
          (Returns \<lparr>ident = fresh w', wrapped = f\<rparr>, l, w'\<lparr>fresh := Suc (fresh w')\<rparr>))
   \<and> (cstream k = Some g \<and> TcpClient_close k v = (q, k', v') \<longrightarrow>
      k' = k \<and> g \<notin> set (open_res v')
      \<and> TcpClient_get_stream k' v' =
          (Returns \<lparr>ident = fresh v', wrapped = g\<rparr>, k, v'\<lparr>fresh := Suc (fresh v')\<rparr>))"
proof (intro conjI impI)
  assume "stream l = Some f \<and> TcpServer_close l w = (r, l', w')"
  then have f: "stream l = Some f" and run: "TcpServer_close l w = (r, l', w')"
    by simp_all
  from run show same: "l' = l"
    by (rule TcpServer_close_frame)
  from f run show "f \<notin> set (open_res w')"
    by (rule TcpServer_close_stream_closed)
  from f same show "TcpServer_get_stream l' w' =
      (Returns \<lparr>ident = fresh w', wrapped = f\<rparr>, l, w'\<lparr>fresh := Suc (fresh w')\<rparr>)"
    by (simp add: TcpServer_get_stream_connected)
next
  assume "cstream k = Some g \<and> TcpClient_close k v = (q, k', v')"
  then have g: "cstream k = Some g" and run: "TcpClient_close k v = (q, k', v')"
    by simp_all
  from run show same: "k' = k"
    by (rule TcpClient_close_frame)
  from g run show "g \<notin> set (open_res v')"
    by (rule TcpClient_close_stream_closed)
  from g same show "TcpClient_get_stream k' v' =
      (Returns \<lparr>ident = fresh v', wrapped = g\<rparr>, k, v'\<lparr>fresh := Suc (fresh v')\<rparr>)"
    by (simp add: TcpClient_get_stream_connected)
qed

theorem get_stream_after_close_witness:
  "stream listener_ex = Some 2
   \<and> TcpServer_close listener_ex (listener_world []) =
        (Returns (), listener_ex,
         (listener_world [])
           \<lparr>open_res := [], trace := [CloseStream 2, CloseSocket 1, CloseSocket 0]\<rparr>)
   \<and> TcpServer_get_stream listener_ex
        ((listener_world [])
           \<lparr>open_res := [], trace := [CloseStream 2, CloseSocket 1, CloseSocket 0]\<rparr>) =
        (Returns \<lparr>ident = 3, wrapped = 2\<rparr>, listener_ex,
         (listener_world [])
           \<lparr>fresh := 4, open_res := [],
            trace := [CloseStream 2, CloseSocket 1, CloseSocket 0]\<rparr>)
   \<and> cstream connector_ex = Some 1
   \<and> TcpClient_close connector_ex (connector_world [(1, EPIPE)]) =
        (Raises (OSError EPIPE), connector_ex,
         (connector_world [(1, EPIPE)])\<lparr>open_res := [0], trace := [CloseStream 1]\<rparr>)
   \<and> TcpClient_get_stream connector_ex
        ((connector_world [(1, EPIPE)])\<lparr>open_res := [0], trace := [CloseStream 1]\<rparr>) =
        (Returns \<lparr>ident = 2, wrapped = 1\<rparr>, connector_ex,
         (connector_world [(1, EPIPE)])
           \<lparr>fresh := 3, open_res := [0], trace := [CloseStream 1]\<rparr>)"
proof -
  have fields: "stream listener_ex = Some 2" "cstream connector_ex = Some 1"
    by (simp_all add: listener_ex_def connector_ex_def)
  have runs: "TcpServer_close listener_ex (listener_world []) =
      (Returns (), listener_ex,
       (listener_world [])
         \<lparr>open_res := [], trace := [CloseStream 2, CloseSocket 1, CloseSocket 0]\<rparr>)"
    "TcpClient_close connector_ex (connector_world [(1, EPIPE)]) =
      (Raises (OSError EPIPE), connector_ex,
       (connector_world [(1, EPIPE)])\<lparr>open_res := [0], trace := [CloseStream 1]\<rparr>)"
    by (simp_all add: TcpServer_close_def TcpClient_close_def close_stream_def close_socket_def
        release_def release_fault_def emit_def listener_ex_def connector_ex_def
        listener_world_def connector_world_def)
  note after = get_stream_after_close
    [where l = listener_ex and f = 2 and w = "listener_world []" and r = "Returns ()"
       and l' = listener_ex
       and w' = "(listener_world [])
           \<lparr>open_res := [], trace := [CloseStream 2, CloseSocket 1, CloseSocket 0]\<rparr>"
       and k = connector_ex and g = 1 and v = "connector_world [(1, EPIPE)]"
       and q = "Raises (OSError EPIPE)" and k' = connector_ex
       and v' = "(connector_world [(1, EPIPE)])\<lparr>open_res := [0], trace := [CloseStream 1]\<rparr>"]
  show ?thesis
    using after fields runs by (simp add: listener_world_def connector_world_def)
qed

lemma TcpServer_get_stream_frame:
  "TcpServer_get_stream l w = (r, l', w') \<Longrightarrow> l' = l \<and> trace w' = trace w"
  by (auto simp: TcpServer_get_stream_def DataStream_def split: option.splits)

lemma TcpClient_get_stream_frame:
  "TcpClient_get_stream k w = (r, k', w') \<Longrightarrow> k' = k \<and> trace w' = trace w"
  by (auto simp: TcpClient_get_stream_def DataStream_def split: option.splits)

lemma TcpServer_close_calls:
  "TcpServer_close l w = (r, l', w') \<Longrightarrow>
     l' = l \<and> (\<exists>cs. trace w' = trace w @ cs \<and> filter establishes cs = [])"
  by (auto simp: TcpServer_close_def close_stream_def close_socket_def release_eq
      split: option.splits prod.splits outcome.splits)

lemma TcpClient_close_calls:
  "TcpClient_close k w = (r, k', w') \<Longrightarrow>
     k' = k \<and> (\<exists>cs. trace w' = trace w @ cs \<and> filter establishes cs = [])"
  by (auto simp: TcpClient_close_def close_stream_def close_socket_def release_eq
      split: option.splits prod.splits outcome.splits)

lemma TcpServer_use_calls:
  "TcpServer_use ms l w = (l2, w2) \<Longrightarrow>
     l2 = l \<and> (\<exists>cs. trace w2 = trace w @ cs \<and> filter establishes cs = [])"
proof (induction ms l w rule: TcpServer_use.induct)
  case (1 self w)
  then show ?case by simp
next
  case (2 ms self w)
  obtain r self1 w1 where step: "TcpServer_get_stream self w = (r, self1, w1)"
    by (cases "TcpServer_get_stream self w") auto
  with "2.prems" have rest: "TcpServer_use ms self1 w1 = (l2, w2)" by simp
  from "2.IH" [OF step [symmetric] refl rest] TcpServer_get_stream_frame [OF step]
  show ?case by simp
next
  case (3 ms self w)
  obtain r self1 w1 where step: "TcpServer_close self w = (r, self1, w1)"
    by (cases "TcpServer_close self w") auto
  with "3.prems" have rest: "TcpServer_use ms self1 w1 = (l2, w2)" by simp
  from "3.IH" [OF step [symmetric] refl rest] TcpServer_close_calls [OF step]
  show ?case by auto
qed

lemma TcpClient_use_calls:
  "TcpClient_use ms k w = (k2, w2) \<Longrightarrow>
     k2 = k \<and> (\<exists>cs. trace w2 = trace w @ cs \<and> filter establishes cs = [])"
proof (induction ms k w rule: TcpClient_use.induct)
  case (1 self w)
  then show ?case by simp
next
  case (2 ms self w)
  obtain r self1 w1 where step: "TcpClient_get_stream self w = (r, self1, w1)"
    by (cases "TcpClient_get_stream self w") auto
  with "2.prems" have rest: "TcpClient_use ms self1 w1 = (k2, w2)" by simp
  from "2.IH" [OF step [symmetric] refl rest] TcpClient_get_stream_frame [OF step]
  show ?case by simp
next
  case (3 ms self w)
  obtain r self1 w1 where step: "TcpClient_close self w = (r, self1, w1)"
    by (cases "TcpClient_close self w") auto
  with "3.prems" have rest: "TcpClient_use ms self1 w1 = (k2, w2)" by simp
  from "3.IH" [OF step [symmetric] refl rest] TcpClient_close_calls [OF step]
  show ?case by auto
qed

lemma TcpServer_init_calls:
  "TcpServer_init ip port w = (r, l, w1) \<Longrightarrow>
     \<exists>cs. trace w1 = trace w @ cs
       \<and> (filter establishes cs = [Accept (fresh w)]
          \<or> filter establishes cs = [] \<and> r \<noteq> Returns ())"
  by (auto simp: TcpServer_init_def call_defs Let_def
      split: option.splits list.splits accept_event.splits prod.splits)

lemma TcpClient_init_calls:
  "TcpClient_init ip port w = (r, k, w1) \<Longrightarrow>
     \<exists>cs. trace w1 = trace w @ cs \<and> filter establishes cs = [Connect (fresh w) (ip, port)]"
  by (auto simp: TcpClient_init_def call_defs Let_def split: option.splits)

text \<open>
  C7: a component makes its one \<^verbatim>\<open>accept\<close> or \<^verbatim>\<open>connect\<close> call inside the constructor,
  and neither \<^verbatim>\<open>get_stream()\<close> nor \<^verbatim>\<open>close()\<close> makes another: over the constructor and
  any sequence of the two exposed methods after it, at most one call establishes a
  connection, exactly one when the constructor returned, and the component's fields,
  so the connection it holds, stay what the constructor left.
\<close>

theorem single_connection:
  "(TcpServer_init ip port w = (r, l, w1) \<and> TcpServer_use ms l w1 = (l2, w2) \<longrightarrow>
      length (filter establishes (new_calls w w2)) \<le> 1
      \<and> (r = Returns () \<longrightarrow> filter establishes (new_calls w w2) = [Accept (fresh w)])
      \<and> l2 = l)
   \<and> (TcpClient_init ip port v = (q, k, v1) \<and> TcpClient_use ns k v1 = (k2, v2) \<longrightarrow>
      filter establishes (new_calls v v2) = [Connect (fresh v) (ip, port)] \<and> k2 = k)"
proof (intro conjI impI)
  assume "TcpServer_init ip port w = (r, l, w1) \<and> TcpServer_use ms l w1 = (l2, w2)"
  then have init: "TcpServer_init ip port w = (r, l, w1)"
    and use: "TcpServer_use ms l w1 = (l2, w2)"
    by simp_all
  from TcpServer_init_calls [OF init] obtain cs where
    cs: "trace w1 = trace w @ cs"
      "filter establishes cs = [Accept (fresh w)] \<or> filter establishes cs = [] \<and> r \<noteq> Returns ()"
    by blast
  from TcpServer_use_calls [OF use] obtain ds where
    ds: "trace w2 = trace w1 @ ds" "filter establishes ds = []" and same: "l2 = l"
    by blast
  from cs ds have calls: "filter establishes (new_calls w w2) = filter establishes cs"
    by (simp add: new_calls_def)
  from calls cs(2) show "length (filter establishes (new_calls w w2)) \<le> 1"
    by auto
  from same show "l2 = l" .
  assume "r = Returns ()"
  with calls cs(2) show "filter establishes (new_calls w w2) = [Accept (fresh w)]"
    by auto
next
  assume "TcpClient_init ip port v = (q, k, v1) \<and> TcpClient_use ns k v1 = (k2, v2)"
  then have init: "TcpClient_init ip port v = (q, k, v1)"
    and use: "TcpClient_use ns k v1 = (k2, v2)"
    by simp_all
  from TcpClient_init_calls [OF init] obtain cs where
    cs: "trace v1 = trace v @ cs" "filter establishes cs = [Connect (fresh v) (ip, port)]"
    by blast
  from TcpClient_use_calls [OF use] obtain ds where
    ds: "trace v2 = trace v1 @ ds" "filter establishes ds = []" and same: "k2 = k"
    by blast
  from cs ds show "filter establishes (new_calls v v2) = [Connect (fresh v) (ip, port)]"
    by (simp add: new_calls_def)
  from same show "k2 = k" .
qed

theorem single_connection_witness:
  "TcpServer_init ''127.0.0.1'' 3000 quiet_world =
     (Returns (), listener_ex,
      quiet_world\<lparr>fresh := 3, incoming := [], open_res := [2, 1, 0],
        trace := listener_calls (''127.0.0.1'', 3000) 0 1 2\<rparr>)
   \<and> TcpServer_use [GetStream, Close, GetStream, Close] listener_ex
        (quiet_world\<lparr>fresh := 3, incoming := [], open_res := [2, 1, 0],
           trace := listener_calls (''127.0.0.1'', 3000) 0 1 2\<rparr>) =
       (listener_ex,
        quiet_world\<lparr>fresh := 5, incoming := [], open_res := [],
          trace := listener_calls (''127.0.0.1'', 3000) 0 1 2 @
            [CloseStream 2, CloseSocket 1, CloseSocket 0,
             CloseStream 2, CloseSocket 1, CloseSocket 0]\<rparr>)
   \<and> filter establishes
        (new_calls quiet_world
           (quiet_world\<lparr>fresh := 5, incoming := [], open_res := [],
              trace := listener_calls (''127.0.0.1'', 3000) 0 1 2 @
                [CloseStream 2, CloseSocket 1, CloseSocket 0,
                 CloseStream 2, CloseSocket 1, CloseSocket 0]\<rparr>))
      = [Accept 0]
   \<and> TcpClient_init ''127.0.0.1'' 3000 quiet_world =
       (Returns (), connector_ex,
        quiet_world\<lparr>fresh := 2, open_res := [1, 0],
          trace := [Socket 0, Connect 0 (''127.0.0.1'', 3000), Makefile 0 ''rw'' ''utf-8'' 1,
                    Print ''Connected!'']\<rparr>)
   \<and> TcpClient_use [Close, GetStream, Close] connector_ex
        (quiet_world\<lparr>fresh := 2, open_res := [1, 0],
           trace := [Socket 0, Connect 0 (''127.0.0.1'', 3000), Makefile 0 ''rw'' ''utf-8'' 1,
                     Print ''Connected!'']\<rparr>) =
       (connector_ex,
        quiet_world\<lparr>fresh := 3, open_res := [],
          trace := [Socket 0, Connect 0 (''127.0.0.1'', 3000), Makefile 0 ''rw'' ''utf-8'' 1,
                    Print ''Connected!'', CloseStream 1, CloseSocket 0,
                    CloseStream 1, CloseSocket 0]\<rparr>)
   \<and> filter establishes
        (new_calls quiet_world
           (quiet_world\<lparr>fresh := 3, open_res := [],
              trace := [Socket 0, Connect 0 (''127.0.0.1'', 3000),
                        Makefile 0 ''rw'' ''utf-8'' 1, Print ''Connected!'', CloseStream 1,
                        CloseSocket 0, CloseStream 1, CloseSocket 0]\<rparr>))
      = [Connect 0 (''127.0.0.1'', 3000)]"
proof -
  have inits: "TcpServer_init ''127.0.0.1'' 3000 quiet_world =
     (Returns (), listener_ex,
      quiet_world\<lparr>fresh := 3, incoming := [], open_res := [2, 1, 0],
        trace := listener_calls (''127.0.0.1'', 3000) 0 1 2\<rparr>)"
    "TcpClient_init ''127.0.0.1'' 3000 quiet_world =
       (Returns (), connector_ex,
        quiet_world\<lparr>fresh := 2, open_res := [1, 0],
          trace := [Socket 0, Connect 0 (''127.0.0.1'', 3000), Makefile 0 ''rw'' ''utf-8'' 1,
                    Print ''Connected!'']\<rparr>)"
    by (simp_all add: TcpServer_init_def TcpClient_init_def lib_defs listener_calls_def
        quiet_world_def listener_ex_def connector_ex_def)
  have uses: "TcpServer_use [GetStream, Close, GetStream, Close] listener_ex
        (quiet_world\<lparr>fresh := 3, incoming := [], open_res := [2, 1, 0],
           trace := listener_calls (''127.0.0.1'', 3000) 0 1 2\<rparr>) =
       (listener_ex,
        quiet_world\<lparr>fresh := 5, incoming := [], open_res := [],
          trace := listener_calls (''127.0.0.1'', 3000) 0 1 2 @
            [CloseStream 2, CloseSocket 1, CloseSocket 0,
             CloseStream 2, CloseSocket 1, CloseSocket 0]\<rparr>)"
    "TcpClient_use [Close, GetStream, Close] connector_ex
        (quiet_world\<lparr>fresh := 2, open_res := [1, 0],
           trace := [Socket 0, Connect 0 (''127.0.0.1'', 3000), Makefile 0 ''rw'' ''utf-8'' 1,
                     Print ''Connected!'']\<rparr>) =
       (connector_ex,
        quiet_world\<lparr>fresh := 3, open_res := [],
          trace := [Socket 0, Connect 0 (''127.0.0.1'', 3000), Makefile 0 ''rw'' ''utf-8'' 1,
                    Print ''Connected!'', CloseStream 1, CloseSocket 0,
                    CloseStream 1, CloseSocket 0]\<rparr>)"
    by (simp_all add: TcpServer_get_stream_def TcpServer_close_def TcpClient_get_stream_def
        TcpClient_close_def close_stream_def close_socket_def release_def release_fault_def
        emit_def DataStream_def listener_calls_def quiet_world_def listener_ex_def
        connector_ex_def)
  note once = single_connection
    [where ip = "''127.0.0.1''" and port = 3000 and w = quiet_world and r = "Returns ()"
       and l = listener_ex
       and ?w1.0 = "quiet_world\<lparr>fresh := 3, incoming := [], open_res := [2, 1, 0],
           trace := listener_calls (''127.0.0.1'', 3000) 0 1 2\<rparr>"
       and ms = "[GetStream, Close, GetStream, Close]" and ?l2.0 = listener_ex
       and ?w2.0 = "quiet_world\<lparr>fresh := 5, incoming := [], open_res := [],
          trace := listener_calls (''127.0.0.1'', 3000) 0 1 2 @
            [CloseStream 2, CloseSocket 1, CloseSocket 0,
             CloseStream 2, CloseSocket 1, CloseSocket 0]\<rparr>"
       and v = quiet_world and q = "Returns ()" and k = connector_ex
       and ?v1.0 = "quiet_world\<lparr>fresh := 2, open_res := [1, 0],
          trace := [Socket 0, Connect 0 (''127.0.0.1'', 3000), Makefile 0 ''rw'' ''utf-8'' 1,
                    Print ''Connected!'']\<rparr>"
       and ns = "[Close, GetStream, Close]" and ?k2.0 = connector_ex
       and ?v2.0 = "quiet_world\<lparr>fresh := 3, open_res := [],
          trace := [Socket 0, Connect 0 (''127.0.0.1'', 3000), Makefile 0 ''rw'' ''utf-8'' 1,
                    Print ''Connected!'', CloseStream 1, CloseSocket 0,
                    CloseStream 1, CloseSocket 0]\<rparr>"]
  show ?thesis
    using once inits uses by (simp add: quiet_world_def)
qed

text \<open>
  C8, as the spec has it: a first \<^verbatim>\<open>close()\<close> releases all resources the component
  owns, and a second \<^verbatim>\<open>close()\<close> does not fail. A Listener is constructed and its
  peer connects; at the end the stream cannot be flushed (\<^verbatim>\<open>EPIPE\<close>) and closing the
  accepted socket fails too (\<^verbatim>\<open>EIO\<close>). The first \<^verbatim>\<open>close()\<close> raises at the stream and
  leaves the peer socket 1 and the listening socket 0 open. The second \<^verbatim>\<open>close()\<close>
  raises again, at the peer socket, and the listening socket 0 is still open after it.
\<close>

theorem close_raises_and_leaks:
  "TcpServer_init ''127.0.0.1'' 3000 flaky_world =
     (Returns (), listener_ex,
      flaky_world\<lparr>fresh := 3, incoming := [], open_res := [2, 1, 0],
        trace := listener_calls (''127.0.0.1'', 3000) 0 1 2\<rparr>)
   \<and> TcpServer_close listener_ex
        (flaky_world\<lparr>fresh := 3, incoming := [], open_res := [2, 1, 0],
           trace := listener_calls (''127.0.0.1'', 3000) 0 1 2\<rparr>) =
       (Raises (OSError EPIPE), listener_ex,
        flaky_world\<lparr>fresh := 3, incoming := [], open_res := [1, 0],
          trace := listener_calls (''127.0.0.1'', 3000) 0 1 2 @ [CloseStream 2]\<rparr>)
   \<and> TcpServer_close listener_ex
        (flaky_world\<lparr>fresh := 3, incoming := [], open_res := [1, 0],
           trace := listener_calls (''127.0.0.1'', 3000) 0 1 2 @ [CloseStream 2]\<rparr>) =
       (Raises (OSError EIO), listener_ex,
        flaky_world\<lparr>fresh := 3, incoming := [], open_res := [0],
          trace := listener_calls (''127.0.0.1'', 3000) 0 1 2 @
            [CloseStream 2, CloseStream 2, CloseSocket 1]\<rparr>)"
  by (simp add: TcpServer_init_def TcpServer_close_def lib_defs release_fault_def
      listener_calls_def listener_ex_def flaky_world_def quiet_world_def)

text \<open>
  C8, amended: a first \<^verbatim>\<open>close()\<close> that returns has released every resource the
  component owns: the stream, the peer socket and the listening socket of a Listener,
  the stream and the socket of a Connector. A second \<^verbatim>\<open>close()\<close> then returns as well:
  each of its release calls finds its resource closed already, so nothing is raised and
  no resource changes state.
\<close>

theorem close_twice:
  "(TcpServer_close l w = (Returns (), l', w') \<longrightarrow>
      (\<exists>f c s. stream l = Some f \<and> clientsock l = Some c \<and> serversock l = Some s
         \<and> f \<notin> set (open_res w') \<and> c \<notin> set (open_res w') \<and> s \<notin> set (open_res w')
         \<and> TcpServer_close l' w' =
             (Returns (), l',
              w'\<lparr>trace := trace w' @ [CloseStream f, CloseSocket c, CloseSocket s]\<rparr>)))
   \<and> (TcpClient_close k v = (Returns (), k', v') \<longrightarrow>
      (\<exists>g t. cstream k = Some g \<and> client k = Some t
         \<and> g \<notin> set (open_res v') \<and> t \<notin> set (open_res v')
         \<and> TcpClient_close k' v' =
             (Returns (), k', v'\<lparr>trace := trace v' @ [CloseStream g, CloseSocket t]\<rparr>)))"
proof (intro conjI impI)
  assume run: "TcpServer_close l w = (Returns (), l', w')"
  then obtain f c s where
    h: "stream l = Some f" "clientsock l = Some c" "serversock l = Some s"
    by (auto simp: TcpServer_close_def split: option.splits prod.splits outcome.splits)
  from run have same: "l' = l"
    by (rule TcpServer_close_frame)
  from run have w': "w' = snd (close_socket s (snd (close_socket c (snd (close_stream f w)))))"
    unfolding TcpServer_close_connected [OF h] by (auto split: option.splits)
  then have closed: "f \<notin> set (open_res w')" "c \<notin> set (open_res w')" "s \<notin> set (open_res w')"
    by (simp_all add: snd_close_stream snd_close_socket)
  then have "TcpServer_close l w' =
      (Returns (), l, w'\<lparr>trace := trace w' @ [CloseStream f, CloseSocket c, CloseSocket s]\<rparr>)"
    unfolding TcpServer_close_connected [OF h]
    by (simp add: release_fault_def snd_close_stream snd_close_socket fst_close_socket)
  with h closed same
  show "\<exists>f c s. stream l = Some f \<and> clientsock l = Some c \<and> serversock l = Some s
         \<and> f \<notin> set (open_res w') \<and> c \<notin> set (open_res w') \<and> s \<notin> set (open_res w')
         \<and> TcpServer_close l' w' =
             (Returns (), l',
              w'\<lparr>trace := trace w' @ [CloseStream f, CloseSocket c, CloseSocket s]\<rparr>)"
    by simp
next
  assume run: "TcpClient_close k v = (Returns (), k', v')"
  then obtain g t where h: "cstream k = Some g" "client k = Some t"
    by (auto simp: TcpClient_close_def split: option.splits prod.splits outcome.splits)
  from run have same: "k' = k"
    by (rule TcpClient_close_frame)
  from run have v': "v' = snd (close_socket t (snd (close_stream g v)))"
    unfolding TcpClient_close_connected [OF h] by (auto split: option.splits)
  then have closed: "g \<notin> set (open_res v')" "t \<notin> set (open_res v')"
    by (simp_all add: snd_close_stream snd_close_socket)
  then have "TcpClient_close k v' =
      (Returns (), k, v'\<lparr>trace := trace v' @ [CloseStream g, CloseSocket t]\<rparr>)"
    unfolding TcpClient_close_connected [OF h]
    by (simp add: release_fault_def snd_close_stream snd_close_socket fst_close_socket)
  with h closed same
  show "\<exists>g t. cstream k = Some g \<and> client k = Some t
         \<and> g \<notin> set (open_res v') \<and> t \<notin> set (open_res v')
         \<and> TcpClient_close k' v' =
             (Returns (), k', v'\<lparr>trace := trace v' @ [CloseStream g, CloseSocket t]\<rparr>)"
    by simp
qed

theorem close_twice_witness:
  "TcpServer_close listener_ex (listener_world []) =
     (Returns (), listener_ex,
      (listener_world [])
        \<lparr>open_res := [], trace := [CloseStream 2, CloseSocket 1, CloseSocket 0]\<rparr>)
   \<and> TcpServer_close listener_ex
        ((listener_world [])
           \<lparr>open_res := [], trace := [CloseStream 2, CloseSocket 1, CloseSocket 0]\<rparr>) =
       (Returns (), listener_ex,
        (listener_world [])
          \<lparr>open_res := [],
           trace := [CloseStream 2, CloseSocket 1, CloseSocket 0,
                     CloseStream 2, CloseSocket 1, CloseSocket 0]\<rparr>)
   \<and> TcpClient_close connector_ex (connector_world []) =
       (Returns (), connector_ex,
        (connector_world [])\<lparr>open_res := [], trace := [CloseStream 1, CloseSocket 0]\<rparr>)
   \<and> TcpClient_close connector_ex
        ((connector_world [])\<lparr>open_res := [], trace := [CloseStream 1, CloseSocket 0]\<rparr>) =
       (Returns (), connector_ex,
        (connector_world [])
          \<lparr>open_res := [],
           trace := [CloseStream 1, CloseSocket 0, CloseStream 1, CloseSocket 0]\<rparr>)"
proof -
  have fields: "stream listener_ex = Some 2" "clientsock listener_ex = Some 1"
    "serversock listener_ex = Some 0" "cstream connector_ex = Some 1"
    "client connector_ex = Some 0"
    by (simp_all add: listener_ex_def connector_ex_def)
  have runs: "TcpServer_close listener_ex (listener_world []) =
      (Returns (), listener_ex,
       (listener_world [])
         \<lparr>open_res := [], trace := [CloseStream 2, CloseSocket 1, CloseSocket 0]\<rparr>)"
    "TcpClient_close connector_ex (connector_world []) =
      (Returns (), connector_ex,
       (connector_world [])\<lparr>open_res := [], trace := [CloseStream 1, CloseSocket 0]\<rparr>)"
    by (simp_all add: TcpServer_close_def TcpClient_close_def close_stream_def close_socket_def
        release_def release_fault_def emit_def listener_ex_def connector_ex_def
        listener_world_def connector_world_def)
  note twice = close_twice
    [where l = listener_ex and w = "listener_world []" and l' = listener_ex
       and w' = "(listener_world [])
           \<lparr>open_res := [], trace := [CloseStream 2, CloseSocket 1, CloseSocket 0]\<rparr>"
       and k = connector_ex and v = "connector_world []" and k' = connector_ex
       and v' = "(connector_world [])
           \<lparr>open_res := [], trace := [CloseStream 1, CloseSocket 0]\<rparr>"]
  show ?thesis
    using twice fields runs by (simp add: listener_world_def connector_world_def)
qed

end
